theory Spec2Isabelle
  imports Main "HOL-Library.Word" "HOL-Library.Multiset"
begin

section \<open>The ECDL client orchestrator (client/main.cpp)\<close>

text \<open>
  The client polls a coordination server, drives a search engine, verifies the
  distinguished points the engine reports and submits them to the server in batches.
  This theory embeds \<^verbatim>\<open>main.cpp\<close>: its file-scope globals are one record, every
  function of the file is a function on that record, and every call into another
  translation unit (server connection, engine context, logger, threads, mutex, sleep)
  is an event appended to a trace. What such a call returns is an input of the model.
\<close>

subsection \<open>Data\<close>

text \<open>\<^verbatim>\<open>BigInteger\<close> is an arbitrary-precision integer class; \<^verbatim>\<open>unsigned int\<close> is 32 bits wide.\<close>

type_synonym BigInteger = int
type_synonym uint = "32 word"

record ECDLPParams =
  prm_p :: BigInteger
  prm_n :: BigInteger
  prm_a :: BigInteger
  prm_b :: BigInteger
  prm_gx :: BigInteger
  prm_gy :: BigInteger
  prm_qx :: BigInteger
  prm_qy :: BigInteger
  prm_dBits :: uint

text \<open>The message \<^verbatim>\<open>getParameters\<close> receives: the parameters and the 32 walk points.\<close>

record ParamsMsg =
  msg_p :: BigInteger
  msg_n :: BigInteger
  msg_a :: BigInteger
  msg_b :: BigInteger
  msg_gx :: BigInteger
  msg_gy :: BigInteger
  msg_qx :: BigInteger
  msg_qy :: BigInteger
  msg_dBits :: uint
  msg_rx :: "BigInteger list"
  msg_ry :: "BigInteger list"

text \<open>\<^verbatim>\<open>struct CallbackParameters\<close>: what the engine hands to the callback.\<close>

record CallbackParameters =
  cb_aStart :: BigInteger
  cb_bStart :: BigInteger
  cb_x :: BigInteger
  cb_y :: BigInteger
  cb_length :: uint

text \<open>\<^verbatim>\<open>DistinguishedPoint p(a, b, x, y, length)\<close>: the constructor stores its five arguments.\<close>

record DistinguishedPoint =
  dp_a :: BigInteger
  dp_b :: BigInteger
  dp_x :: BigInteger
  dp_y :: BigInteger
  dp_length :: uint

text \<open>\<^verbatim>\<open>ECCurve curve(p, n, a, b, gx, gy)\<close> and \<^verbatim>\<open>ECPoint p(x, y)\<close>.\<close>

record ECCurve =
  crv_p :: BigInteger
  crv_n :: BigInteger
  crv_a :: BigInteger
  crv_b :: BigInteger
  crv_gx :: BigInteger
  crv_gy :: BigInteger

record ECPoint =
  pt_x :: BigInteger
  pt_y :: BigInteger

text \<open>
  \<^verbatim>\<open>ClientConfig\<close> is declared in \<^verbatim>\<open>client.h\<close>; these are the fields \<^verbatim>\<open>main.cpp\<close> reads.
  \<^verbatim>\<open>pointCacheSize\<close> is the flush threshold the cache size is compared with, a count.
\<close>

record ClientConfig =
  cfg_device :: int
  cfg_blocks :: int
  cfg_threads :: int
  cfg_pointsPerThread :: int
  cfg_serverHost :: string
  cfg_serverPort :: nat
  cfg_pointCacheSize :: nat

text \<open>
  The engine handle. The constructors take the configuration values; the pointers
  \<^verbatim>\<open>params\<close>, \<^verbatim>\<open>rx\<close>, \<^verbatim>\<open>ry\<close> and \<^verbatim>\<open>callback\<close> they also take are always the addresses of
  \<^verbatim>\<open>_params\<close>, \<^verbatim>\<open>_rx\<close>, \<^verbatim>\<open>_ry\<close> and \<^verbatim>\<open>pointFoundCallback\<close>; the last argument is \<^verbatim>\<open>numRPoints\<close>.
\<close>

datatype ECDLContext =
  ECDLCudaContext int int int int nat
  | ECDLCpuContext int int nat

record ServerConnection =
  conn_host :: string
  conn_port :: nat

record DeviceInfo =
  dev_name :: string
  dev_major :: int
  dev_minor :: int
  dev_mpCount :: int
  dev_cores :: int
  dev_globalMemory :: nat

subsection \<open>Events\<close>

text \<open>
  An argument of a log call: a C string, a number, a \<^verbatim>\<open>BigInteger\<close> printed with
  \<^verbatim>\<open>toString()\<close> or with \<^verbatim>\<open>toString(16)\<close>, a CUDA error printed with \<^verbatim>\<open>cudaGetErrorString\<close>.
\<close>

datatype logarg =
  ArgStr string
  | ArgNum int
  | ArgBig BigInteger
  | ArgHex BigInteger
  | ArgCudaError int

datatype threadFn = SendPointsThread | RunningThread

datatype event =
  LogInfo string "logarg list"
  | LogError string "logarg list"
  | Sleep nat
  | MutexGrab
  | MutexRelease
  | NewServerConnection string nat
  | GetStatus string
  | GetParameters string
  | SubmitPoints string "DistinguishedPoint list"
  | NewContext ECDLContext
  | ContextInit
  | ContextIsRunning
  | ContextStop
  | ContextDelete
  | ThreadStart threadFn
  | Srand
  | LoadConfig string
  | CudaGetDeviceCount
  | CudaGetDeviceInfo int
  | DoBenchmark

subsection \<open>The globals\<close>

text \<open>
  Field \<open>g_x\<close> is the global \<^verbatim>\<open>_x\<close> of \<^verbatim>\<open>main.cpp\<close>; a null pointer is \<open>None\<close>.
  \<open>trace\<close> is not a variable of the program: it collects the events in order.
\<close>

record globals =
  g_context :: "ECDLContext option"
  g_rx :: "BigInteger list"
  g_ry :: "BigInteger list"
  g_params :: ECDLPParams
  g_id :: string
  g_serverConnection :: "ServerConnection option"
  g_config :: ClientConfig
  g_pointsCache :: "DistinguishedPoint list"
  g_running :: bool
  trace :: "event list"

text \<open>
  What the file takes from outside: the two preprocessor symbols selecting the
  backend, the two status constants of \<^verbatim>\<open>ServerConnection.h\<close>, and the curve
  membership test \<^verbatim>\<open>ECCurve::pointExists\<close>.
\<close>

record env =
  def_CUDA :: bool
  def_CPU :: bool
  SERVER_STATUS_RUNNING :: uint
  SERVER_STATUS_STOPPED :: uint
  pointExists :: "ECCurve \<Rightarrow> ECPoint \<Rightarrow> bool"

definition NUM_R_POINTS :: nat where
  "NUM_R_POINTS = 32"

definition emit :: "event \<Rightarrow> globals \<Rightarrow> globals" where
  "emit e s = s\<lparr>trace := trace s @ [e]\<rparr>"

definition emits :: "event list \<Rightarrow> globals \<Rightarrow> globals" where
  "emits es s = s\<lparr>trace := trace s @ es\<rparr>"

text \<open>The events a step added: what \<open>s'\<close> has recorded beyond \<open>s\<close>.\<close>

definition new_events :: "globals \<Rightarrow> globals \<Rightarrow> event list" where
  "new_events s s' = drop (length (trace s)) (trace s')"

subsection \<open>The verifier and the cache\<close>

definition verifyPoint :: "env \<Rightarrow> BigInteger \<Rightarrow> BigInteger \<Rightarrow> globals \<Rightarrow> bool" where
  "verifyPoint E x y s =
     (let curve = \<lparr>crv_p = prm_p (g_params s), crv_n = prm_n (g_params s),
                   crv_a = prm_a (g_params s), crv_b = prm_b (g_params s),
                   crv_gx = prm_gx (g_params s), crv_gy = prm_gy (g_params s)\<rparr>;
          p = \<lparr>pt_x = x, pt_y = y\<rparr>
      in pointExists E curve p)"

definition addPointToCache ::
  "BigInteger \<Rightarrow> BigInteger \<Rightarrow> BigInteger \<Rightarrow> BigInteger \<Rightarrow> uint \<Rightarrow> globals \<Rightarrow> globals" where
  "addPointToCache a b x y len s =
     (let p = \<lparr>dp_a = a, dp_b = b, dp_x = x, dp_y = y, dp_length = len\<rparr>;
          s1 = emit MutexGrab s;
          s2 = s1\<lparr>g_pointsCache := g_pointsCache s1 @ [p]\<rparr>
      in emit MutexRelease s2)"

definition pointFoundCallback :: "env \<Rightarrow> CallbackParameters \<Rightarrow> globals \<Rightarrow> globals" where
  "pointFoundCallback E p s =
     (let valid = verifyPoint E (cb_x p) (cb_y p) s
      in if \<not> valid then
           emits [LogInfo ''INVALID POINT\<newline>'' [],
                  LogInfo ''a: %s'' [ArgHex (cb_aStart p)],
                  LogInfo ''b: %s'' [ArgHex (cb_bStart p)],
                  LogInfo ''x: %s'' [ArgHex (cb_x p)],
                  LogInfo ''y: %s'' [ArgHex (cb_y p)],
                  LogInfo ''length: %d'' [ArgNum (uint (cb_length p))]] s
         else addPointToCache (cb_aStart p) (cb_bStart p) (cb_x p) (cb_y p) (cb_length p) s)"

subsection \<open>Fetching the parameters\<close>

text \<open>
  The loop \<^verbatim>\<open>for(int i = 0; i < 32; i++) { rx[i] = paramsMsg.rx[i]; ry[i] = paramsMsg.ry[i]; }\<close>
  on the pair of arrays. The index stays within 0..32.
\<close>

function copyRPoints ::
  "ParamsMsg \<Rightarrow> nat \<Rightarrow> BigInteger list \<times> BigInteger list \<Rightarrow> BigInteger list \<times> BigInteger list" where
  "copyRPoints m i (rx, ry) =
     (if i < 32 then copyRPoints m (i + 1) (rx[i := msg_rx m ! i], ry[i := msg_ry m ! i])
      else (rx, ry))"
  by pat_completeness auto
termination
  by (relation "measure (\<lambda>(m, i, r). 32 - i)") auto

declare copyRPoints.simps [simp del]

text \<open>
  \<^verbatim>\<open>getParameters(_params, _rx, _ry)\<close>: the three references are the globals at its only
  call. The first argument is what \<^verbatim>\<open>_serverConnection->getParameters(_id)\<close> does: it
  throws a string (\<open>Inl\<close>) or returns the message (\<open>Inr\<close>).
\<close>

definition getParameters :: "string + ParamsMsg \<Rightarrow> globals \<Rightarrow> bool \<times> globals" where
  "getParameters resp s =
     (let s1 = emit (GetParameters (g_id s)) s
      in case resp of
           Inl e \<Rightarrow> (False, emit (LogInfo ''Error: %s\<newline>'' [ArgStr e]) s1)
         | Inr paramsMsg \<Rightarrow>
             (let params = \<lparr>prm_p = msg_p paramsMsg, prm_n = msg_n paramsMsg,
                             prm_a = msg_a paramsMsg, prm_b = msg_b paramsMsg,
                             prm_gx = msg_gx paramsMsg, prm_gy = msg_gy paramsMsg,
                             prm_qx = msg_qx paramsMsg, prm_qy = msg_qy paramsMsg,
                             prm_dBits = msg_dBits paramsMsg\<rparr>;
                  (rx, ry) = copyRPoints paramsMsg 0 (g_rx s1, g_ry s1)
              in (True, s1\<lparr>g_params := params, g_rx := rx, g_ry := ry\<rparr>)))"

subsection \<open>The submission pump\<close>

definition INT_MAX :: int where
  "INT_MAX = 2147483647"

text \<open>An \<^verbatim>\<open>int\<close> compared with, or used as, a \<^verbatim>\<open>size_t\<close> is converted to 64 bits unsigned.\<close>

definition to_size_t :: "int \<Rightarrow> nat" where
  "to_size_t i = nat (i mod 2 ^ 64)"

text \<open>
  \<^verbatim>\<open>for(int i = 0; i < _pointsCache.size(); i++) points.push_back(_pointsCache[i]);\<close>
  The index is an \<^verbatim>\<open>int\<close>: incrementing it at \<^verbatim>\<open>INT_MAX\<close> is undefined, which is \<open>None\<close>.
\<close>

function copyPoints ::
  "DistinguishedPoint list \<Rightarrow> int \<Rightarrow> DistinguishedPoint list \<Rightarrow> DistinguishedPoint list option" where
  "copyPoints cache i points =
     (if to_size_t i < length cache then
        (if INT_MAX \<le> i then None
         else copyPoints cache (i + 1) (points @ [cache ! to_size_t i]))
      else Some points)"
  by pat_completeness auto
termination
  by (relation "measure (\<lambda>(cache, i, points). nat (INT_MAX - i))") auto

declare copyPoints.simps [simp del]

text \<open>
  One pass through the body of \<^verbatim>\<open>while(_running)\<close> in \<^verbatim>\<open>sendPointsThread\<close>. The first
  argument is what \<^verbatim>\<open>submitPoints\<close> does if it is called: it throws a string or returns.
\<close>

definition sendPointsIter :: "string + unit \<Rightarrow> globals \<Rightarrow> globals option" where
  "sendPointsIter resp s =
     (let s1 = emit MutexGrab s
      in if length (g_pointsCache s1) \<ge> cfg_pointCacheSize (g_config s1) then
           (let s2 = emit (LogInfo ''Sending %d points to server''
                             [ArgNum (int (length (g_pointsCache s1)))]) s1
            in case copyPoints (g_pointsCache s2) 0 [] of
                 None \<Rightarrow> None
               | Some points \<Rightarrow>
                   (let s3 = emit (LogInfo ''Sending to server\<newline>'' []) s2;
                        s4 = emit (SubmitPoints (g_id s3) points) s3;
                        (success, s5) =
                          (case resp of
                             Inl err \<Rightarrow>
                               (False, emit (LogInfo
                                  ''Error sending points to server: %s. Will try again later\<newline>''
                                  [ArgStr err]) s4)
                           | Inr u \<Rightarrow> (True, s4));
                        s6 = (if success then s5\<lparr>g_pointsCache := []\<rparr> else s5)
                    in Some (emit (Sleep 30) (emit MutexRelease s6))))
         else Some (emit (Sleep 30) (emit MutexRelease s1)))"

text \<open>
  The thread: it runs while \<^verbatim>\<open>_running\<close> holds. The list gives what \<^verbatim>\<open>submitPoints\<close>
  does in each pass; when the list is used up the thread is still looping.
\<close>

datatype pumpResult = PumpReturned globals | PumpLooping globals | PumpUndefined

fun sendPointsThread :: "(string + unit) list \<Rightarrow> globals \<Rightarrow> pumpResult" where
  "sendPointsThread [] s = (if g_running s then PumpLooping s else PumpReturned s)"
| "sendPointsThread (r # rs) s =
     (if g_running s then
        (case sendPointsIter r s of
           None \<Rightarrow> PumpUndefined
         | Some s' \<Rightarrow> sendPointsThread rs s')
      else PumpReturned s)"

subsection \<open>The poll loop\<close>

definition getNewContext :: "env \<Rightarrow> nat \<Rightarrow> globals \<Rightarrow> ECDLContext option \<times> globals" where
  "getNewContext E numRPoints s =
     (let (ctx1, s1) =
            (if def_CUDA E then
               (let s' = emit (LogInfo ''Creating CUDA context...'' []) s;
                    c = ECDLCudaContext (cfg_device (g_config s')) (cfg_blocks (g_config s'))
                          (cfg_threads (g_config s')) (cfg_pointsPerThread (g_config s')) numRPoints
                in (Some c, emit (NewContext c) s'))
             else (None, s));
          (ctx2, s2) =
            (if def_CPU E then
               (let c = ECDLCpuContext (cfg_threads (g_config s1))
                          (cfg_pointsPerThread (g_config s1)) numRPoints
                in (Some c, emit (NewContext c) s1))
             else (ctx1, s1))
      in (ctx2, s2))"

text \<open>
  What one poll meets: what \<^verbatim>\<open>getStatus\<close> does, and what \<^verbatim>\<open>getParameters\<close> and
  \<^verbatim>\<open>isRunning\<close> do if they are called.
\<close>

record pollInput =
  in_status :: "string + uint"
  in_params :: "string + ParamsMsg"
  in_isRunning :: bool

datatype iter = Continue globals | Break globals | Crash globals

text \<open>
  One pass through the body of \<^verbatim>\<open>while(_running)\<close> in \<^verbatim>\<open>pollConnections\<close>.
  \<^verbatim>\<open>_context->init()\<close> on the null pointer that \<^verbatim>\<open>getNewContext\<close> returns when no
  backend is compiled in is \<open>Crash\<close>. \<^verbatim>\<open>delete _context\<close> leaves the pointer as it is.
\<close>

definition pollIter :: "env \<Rightarrow> pollInput \<Rightarrow> globals \<Rightarrow> iter" where
  "pollIter E inp s =
     (let s1 = emit (LogInfo ''Connecting to server...'' []) s;
          s2 = emit (GetStatus (g_id s1)) s1
      in case in_status inp of
           Inl e \<Rightarrow>
             Continue (emits [LogInfo ''Connection error: %s\<newline>'' [ArgStr e],
                              LogInfo ''Retrying in 60 seconds...\<newline>'' [],
                              Sleep 60] s2)
         | Inr status \<Rightarrow>
             (let s3 = emit (LogInfo ''Status = %d\<newline>'' [ArgNum (uint status)]) s2
              in if status = SERVER_STATUS_RUNNING E then
                   (case g_context s3 of
                      None \<Rightarrow>
                        (let (ok, s4) = getParameters (in_params inp) s3
                         in if \<not> ok then
                              Continue (emit (Sleep 300)
                                (emit (LogError ''Error getting the parameters from server\<newline>'' []) s4))
                            else
                              (let s5 = emits
                                     [LogInfo ''Received parameters from server'' [],
                                      LogInfo ''GF(p) = %s'' [ArgBig (prm_p (g_params s4))],
                                      LogInfo ''y^2 = x^3 + %sx + %s''
                                        [ArgBig (prm_a (g_params s4)), ArgBig (prm_b (g_params s4))],
                                      LogInfo ''n = %s'' [ArgBig (prm_n (g_params s4))],
                                      LogInfo ''G = [%s, %s]''
                                        [ArgBig (prm_gx (g_params s4)), ArgBig (prm_gy (g_params s4))],
                                      LogInfo ''Q = [%s, %s]''
                                        [ArgBig (prm_qx (g_params s4)), ArgBig (prm_qy (g_params s4))],
                                      LogInfo ''%d distinguished bits''
                                        [ArgNum (uint (prm_dBits (g_params s4)))]] s4;
                                   (ctx, s6) = getNewContext E NUM_R_POINTS s5;
                                   s7 = s6\<lparr>g_context := ctx\<rparr>
                               in case ctx of
                                    None \<Rightarrow> Crash s7
                                  | Some c \<Rightarrow>
                                      Continue (emit (Sleep 300)
                                        (emit (ThreadStart RunningThread) (emit ContextInit s7)))))
                    | Some c \<Rightarrow>
                        (let s4 = emit ContextIsRunning s3
                         in if \<not> in_isRunning inp then
                              Continue (emit (Sleep 300) (emit (ThreadStart RunningThread) s4))
                            else Continue (emit (Sleep 300) s4)))
                 else if status = SERVER_STATUS_STOPPED E then
                   (let s4 = emit (LogInfo ''Stopping'' []) s3;
                        s5 = (if g_context s4 \<noteq> None then emits [ContextStop, ContextDelete] s4
                              else s4)
                    in Break s5)
                 else Continue (emit (Sleep 300) s3)))"

text \<open>
  The loop. The list gives what each poll meets; when it is used up the loop is still
  running (\<open>Pending\<close>).
\<close>

datatype loopResult = Returned globals | Pending globals | Crashed globals

fun pollLoop :: "env \<Rightarrow> pollInput list \<Rightarrow> globals \<Rightarrow> loopResult" where
  "pollLoop E [] s = (if g_running s then Pending s else Returned s)"
| "pollLoop E (inp # rest) s =
     (if g_running s then
        (case pollIter E inp s of
           Continue s' \<Rightarrow> pollLoop E rest s'
         | Break s' \<Rightarrow> Returned s'
         | Crash s' \<Rightarrow> Crashed s')
      else Returned s)"

definition pollConnections :: "env \<Rightarrow> pollInput list \<Rightarrow> globals \<Rightarrow> loopResult" where
  "pollConnections E polls s =
     (let s1 = s\<lparr>g_running := True\<rparr>;
          s2 = emit (ThreadStart SendPointsThread) s1
      in pollLoop E polls s2)"

subsection \<open>Start-up\<close>

text \<open>
  What a run of the process meets: what \<^verbatim>\<open>loadConfig\<close> does, the CUDA device count,
  what \<^verbatim>\<open>CUDA::getDeviceInfo\<close> does (it throws a \<^verbatim>\<open>cudaError_t\<close> or fills the record), what
  the constructor of \<^verbatim>\<open>ServerConnection\<close> does, and the polls.
\<close>

record mainInput =
  in_loadConfig :: "string + ClientConfig"
  in_deviceCount :: int
  in_deviceInfo :: "int + DeviceInfo"
  in_connect :: "string + unit"
  in_polls :: "pollInput list"

text \<open>
  \<^verbatim>\<open>devInfo.mpCount * devInfo.cores\<close> multiplies two \<^verbatim>\<open>int\<close>s: the result is the product
  reduced to 32 bits, read as a signed value.
\<close>

definition int_mult :: "int \<Rightarrow> int \<Rightarrow> int" where
  "int_mult a b = sint (word_of_int (a * b) :: 32 word)"

definition cudaInit :: "mainInput \<Rightarrow> globals \<Rightarrow> bool \<times> globals" where
  "cudaInit I s =
     (let s1 = emit CudaGetDeviceCount s
      in if in_deviceCount I = 0 then
           (False, emit (LogError ''No CUDA devices detected\<newline>'' []) s1)
         else
           (let s2 = emit (CudaGetDeviceInfo (cfg_device (g_config s1))) s1
            in case in_deviceInfo I of
                 Inl cudaError \<Rightarrow>
                   (False, emit (LogError ''Error getting info for device %d: %s\<newline>''
                                   [ArgNum (cfg_device (g_config s2)), ArgCudaError cudaError]) s2)
               | Inr devInfo \<Rightarrow>
                   (True, emits
                      [LogInfo ''Device info:'' [],
                       LogInfo ''Name:     %s'' [ArgStr (dev_name devInfo)],
                       LogInfo ''version:  %d.%d''
                         [ArgNum (dev_major devInfo), ArgNum (dev_minor devInfo)],
                       LogInfo ''MP count: %d'' [ArgNum (dev_mpCount devInfo)],
                       LogInfo ''Cores:    %d'' [ArgNum (int_mult (dev_mpCount devInfo) (dev_cores devInfo))],
                       LogInfo ''Memory:   %lldMB'' [ArgNum (int (dev_globalMemory devInfo div 1048576))],
                       LogInfo [] []] s2)))"

definition enterEventLoop :: "env \<Rightarrow> mainInput \<Rightarrow> globals \<Rightarrow> loopResult" where
  "enterEventLoop E I s =
     (let s1 = emit (NewServerConnection (cfg_serverHost (g_config s))
                       (cfg_serverPort (g_config s))) s
      in case in_connect I of
           Inl err \<Rightarrow> Returned (emit (LogError ''Error: %s'' [ArgStr err]) s1)
         | Inr u \<Rightarrow>
             pollConnections E (in_polls I)
               (s1\<lparr>g_serverConnection :=
                     Some \<lparr>conn_host = cfg_serverHost (g_config s1),
                           conn_port = cfg_serverPort (g_config s1)\<rparr>\<rparr>))"

text \<open>
  \<^verbatim>\<open>main\<close>: \<open>argv\<close> is the argument vector (\<^verbatim>\<open>argc\<close> is its length). The process exits
  with a status, is still polling when the inputs are used up, or has died on the null
  engine pointer.
\<close>

datatype procResult = Exited int globals | StillRunning globals | Died globals

definition main :: "env \<Rightarrow> mainInput \<Rightarrow> string list \<Rightarrow> globals \<Rightarrow> procResult" where
  "main E I argv s =
     (let s1 = emit Srand s;
          s2 = emit (LoadConfig ''settings.json'') s1
      in case in_loadConfig I of
           Inl err \<Rightarrow> Exited 1 (emit (LogError (''Error loading settings: '' @ err) []) s2)
         | Inr cfg \<Rightarrow>
             (let s3 = s2\<lparr>g_config := cfg\<rparr>;
                  (ok, s4) = (if def_CUDA E then cudaInit I s3 else (True, s3))
              in if \<not> ok then Exited 1 s4
                 else if length argv \<ge> 2 \<and> argv ! 1 = ''-b'' then Exited 0 (emit DoBenchmark s4)
                 else if length argv < 2 then
                   Exited 0 (emit (LogInfo ''usage: [options] id\<newline>'' []) s4)
                 else
                   (case enterEventLoop E I (s4\<lparr>g_id := argv ! 1\<rparr>) of
                      Returned s' \<Rightarrow> Exited 0 s'
                    | Pending s' \<Rightarrow> StillRunning s'
                    | Crashed s' \<Rightarrow> Died s')))"

text \<open>
  The globals when \<^verbatim>\<open>main\<close> starts, from their initialisers: \<^verbatim>\<open>_context\<close> and
  \<^verbatim>\<open>_serverConnection\<close> are null, \<^verbatim>\<open>_running\<close> is true, the cache and the id are
  empty. The arguments are the default-constructed values of the classes declared
  elsewhere.
\<close>

definition startup ::
  "ClientConfig \<Rightarrow> ECDLPParams \<Rightarrow> BigInteger list \<Rightarrow> BigInteger list \<Rightarrow> globals" where
  "startup cfg prm rx ry =
     \<lparr>g_context = None, g_rx = rx, g_ry = ry, g_params = prm, g_id = [],
      g_serverConnection = None, g_config = cfg, g_pointsCache = [],
      g_running = True, trace = []\<rparr>"

subsection \<open>Reading the trace\<close>

text \<open>The globals an outcome carries.\<close>

fun iter_state :: "iter \<Rightarrow> globals" where
  "iter_state (Continue s) = s"
| "iter_state (Break s) = s"
| "iter_state (Crash s) = s"

fun loop_state :: "loopResult \<Rightarrow> globals" where
  "loop_state (Returned s) = s"
| "loop_state (Pending s) = s"
| "loop_state (Crashed s) = s"

fun proc_state :: "procResult \<Rightarrow> globals" where
  "proc_state (Exited c s) = s"
| "proc_state (StillRunning s) = s"
| "proc_state (Died s) = s"

text \<open>The batches handed to \<^verbatim>\<open>submitPoints\<close>, in order, each with the problem id it went to.\<close>

fun submissions :: "event list \<Rightarrow> (string \<times> DistinguishedPoint list) list" where
  "submissions [] = []"
| "submissions (SubmitPoints i ps # es) = (i, ps) # submissions es"
| "submissions (e # es) = submissions es"

text \<open>The events that are a call to the coordination server, or the connection to it.\<close>

fun is_server_event :: "event \<Rightarrow> bool" where
  "is_server_event (NewServerConnection h p) = True"
| "is_server_event (GetStatus i) = True"
| "is_server_event (GetParameters i) = True"
| "is_server_event (SubmitPoints i ps) = True"
| "is_server_event e = False"

text \<open>The events that act on the engine: construction, init, stop, delete, a launch of \<^verbatim>\<open>run\<close>.\<close>

fun is_engine_event :: "event \<Rightarrow> bool" where
  "is_engine_event (NewContext c) = True"
| "is_engine_event ContextInit = True"
| "is_engine_event ContextStop = True"
| "is_engine_event ContextDelete = True"
| "is_engine_event (ThreadStart RunningThread) = True"
| "is_engine_event e = False"


text \<open>The calls to \<^verbatim>\<open>getParameters\<close> on the server.\<close>

fun is_fetch :: "event \<Rightarrow> bool" where
  "is_fetch (GetParameters i) = True"
| "is_fetch e = False"

subsection \<open>The three execution units together\<close>

text \<open>
  After \<^verbatim>\<open>pollConnections\<close> has started the pump, three activities change the globals:
  the poll loop, the pump, and the engine calling \<^verbatim>\<open>pointFoundCallback\<close>. Each rule is
  one pass of one of them; a pass of a loop needs its condition \<^verbatim>\<open>_running\<close>. A poll
  that ends in \<open>Break\<close> or \<open>Crash\<close> has no successor: the process is over.
\<close>

inductive step :: "env \<Rightarrow> globals \<Rightarrow> globals \<Rightarrow> bool" for E :: env where
  poll: "g_running s \<Longrightarrow> pollIter E inp s = Continue s' \<Longrightarrow> step E s s'"
| pump: "g_running s \<Longrightarrow> sendPointsIter r s = Some s' \<Longrightarrow> step E s s'"
| engine: "pointFoundCallback E p s = s' \<Longrightarrow> step E s s'"

inductive reachable :: "env \<Rightarrow> globals \<Rightarrow> globals \<Rightarrow> bool" for E :: env and s0 :: globals where
  reach_start: "reachable E s0 s0"
| reach_step: "reachable E s0 s \<Longrightarrow> step E s s' \<Longrightarrow> reachable E s0 s'"

subsection \<open>Sample inputs\<close>

text \<open>
  A small curve for the examples: \<open>y\<^sup>2 = x\<^sup>3 + 2x + 3\<close> over the field of 97 elements,
  with the membership test of a short Weierstrass curve standing for \<^verbatim>\<open>pointExists\<close>.
  \<open>(3, 6)\<close> and \<open>(80, 10)\<close> are on it, \<open>(3, 7)\<close> is not.
\<close>

definition sample_pointExists :: "ECCurve \<Rightarrow> ECPoint \<Rightarrow> bool" where
  "sample_pointExists c q =
     ((pt_y q * pt_y q) mod crv_p c =
      (pt_x q * pt_x q * pt_x q + crv_a c * pt_x q + crv_b c) mod crv_p c)"

definition sample_env :: env where
  "sample_env = \<lparr>def_CUDA = False, def_CPU = True, SERVER_STATUS_RUNNING = 0,
                 SERVER_STATUS_STOPPED = 1, pointExists = sample_pointExists\<rparr>"

definition sample_cuda_env :: env where
  "sample_cuda_env = \<lparr>def_CUDA = True, def_CPU = False, SERVER_STATUS_RUNNING = 0,
                      SERVER_STATUS_STOPPED = 1, pointExists = sample_pointExists\<rparr>"

definition sample_config :: ClientConfig where
  "sample_config = \<lparr>cfg_device = 0, cfg_blocks = 1, cfg_threads = 2, cfg_pointsPerThread = 4,
                    cfg_serverHost = ''localhost'', cfg_serverPort = 9999,
                    cfg_pointCacheSize = 2\<rparr>"

definition sample_params :: ECDLPParams where
  "sample_params = \<lparr>prm_p = 97, prm_n = 5, prm_a = 2, prm_b = 3, prm_gx = 3, prm_gy = 6,
                    prm_qx = 80, prm_qy = 10, prm_dBits = 4\<rparr>"

definition sample_msg :: ParamsMsg where
  "sample_msg = \<lparr>msg_p = 97, msg_n = 5, msg_a = 2, msg_b = 3, msg_gx = 3, msg_gy = 6,
                 msg_qx = 80, msg_qy = 10, msg_dBits = 4,
                 msg_rx = replicate 32 3, msg_ry = replicate 32 6\<rparr>"

definition dp1 :: DistinguishedPoint where
  "dp1 = \<lparr>dp_a = 1, dp_b = 0, dp_x = 3, dp_y = 6, dp_length = 10\<rparr>"

definition dp2 :: DistinguishedPoint where
  "dp2 = \<lparr>dp_a = 2, dp_b = 0, dp_x = 80, dp_y = 10, dp_length = 20\<rparr>"

text \<open>A candidate on the curve and one off it.\<close>

definition cand_on :: CallbackParameters where
  "cand_on = \<lparr>cb_aStart = 2, cb_bStart = 0, cb_x = 80, cb_y = 10, cb_length = 20\<rparr>"

definition cand_off :: CallbackParameters where
  "cand_off = \<lparr>cb_aStart = 1, cb_bStart = 1, cb_x = 3, cb_y = 7, cb_length = 5\<rparr>"

text \<open>The globals of a client working on problem \<open>p1\<close>, with no engine yet and \<open>cache\<close> pending.\<close>

definition sample_state :: "DistinguishedPoint list \<Rightarrow> globals" where
  "sample_state cache =
     \<lparr>g_context = None, g_rx = replicate 32 0, g_ry = replicate 32 0,
      g_params = sample_params, g_id = ''p1'',
      g_serverConnection = Some \<lparr>conn_host = ''localhost'', conn_port = 9999\<rparr>,
      g_config = sample_config, g_pointsCache = cache, g_running = True, trace = []\<rparr>"

text \<open>The same client once its engine exists.\<close>

definition sample_engine_state :: "DistinguishedPoint list \<Rightarrow> globals" where
  "sample_engine_state cache = (sample_state cache)\<lparr>g_context := Some (ECDLCpuContext 2 4 32)\<rparr>"

definition sample_device :: DeviceInfo where
  "sample_device = \<lparr>dev_name = ''gpu0'', dev_major = 3, dev_minor = 5, dev_mpCount = 8,
                    dev_cores = 192, dev_globalMemory = 2147483648\<rparr>"

text \<open>A run in which the configuration loads, a device is there and the server accepts the connection.\<close>

definition sample_run :: "pollInput list \<Rightarrow> mainInput" where
  "sample_run polls = \<lparr>in_loadConfig = Inr sample_config, in_deviceCount = 1,
                        in_deviceInfo = Inr sample_device, in_connect = Inr (),
                        in_polls = polls\<rparr>"

text \<open>A run in which \<^verbatim>\<open>settings.json\<close> cannot be loaded.\<close>

definition sample_bad_config_run :: mainInput where
  "sample_bad_config_run = \<lparr>in_loadConfig = Inl ''no file'', in_deviceCount = 1,
                            in_deviceInfo = Inr sample_device, in_connect = Inr (),
                            in_polls = []\<rparr>"

definition sample_startup :: globals where
  "sample_startup = startup sample_config sample_params (replicate 32 0) (replicate 32 0)"

definition poll_with :: "string + uint \<Rightarrow> pollInput" where
  "poll_with st = \<lparr>in_status = st, in_params = Inr sample_msg, in_isRunning = True\<rparr>"

section \<open>Properties\<close>

subsection \<open>The copy loop of the pump\<close>

lemma to_size_t_le: "0 \<le> i \<Longrightarrow> to_size_t i \<le> nat i"
  unfolding to_size_t_def
  by (metis nat_mono zmod_le_nonneg_dividend)

lemma to_size_t_id: "0 \<le> i \<Longrightarrow> i < INT_MAX \<Longrightarrow> to_size_t i = nat i"
  by (simp add: to_size_t_def INT_MAX_def)

text \<open>Whatever the loop returns is the cache from the index on, appended to what it had.\<close>

lemma copyPoints_Some:
  "copyPoints cache i pts = Some r \<Longrightarrow> 0 \<le> i \<Longrightarrow> r = pts @ drop (nat i) cache"
proof (induction cache i pts rule: copyPoints.induct)
  case (1 cache i points)
  show ?case
  proof (cases "to_size_t i < length cache")
    case True
    with "1.prems" have lt: "i < INT_MAX"
      by (auto simp: copyPoints.simps [of cache i points] split: if_splits)
    with True "1.prems" have rec: "copyPoints cache (i + 1) (points @ [cache ! to_size_t i]) = Some r"
      by (simp add: copyPoints.simps [of cache i points] split: if_splits)
    have idx: "to_size_t i = nat i"
      using "1.prems" lt by (simp add: to_size_t_id)
    have "r = (points @ [cache ! to_size_t i]) @ drop (nat (i + 1)) cache"
      using "1.IH" True lt rec "1.prems" by simp
    moreover have "nat (i + 1) = Suc (nat i)"
      using "1.prems" by simp
    ultimately show ?thesis
      using True idx by (simp add: Cons_nth_drop_Suc)
  next
    case False
    then have "length cache \<le> nat i"
      using to_size_t_le [of i] "1.prems" by simp
    with False "1.prems" show ?thesis
      by (simp add: copyPoints.simps [of cache i points])
  qed
qed

text \<open>A cache of at most \<^verbatim>\<open>INT_MAX\<close> points is copied without overflow.\<close>

lemma copyPoints_defined:
  "0 \<le> i \<Longrightarrow> nat i \<le> length cache \<Longrightarrow> int (length cache) \<le> INT_MAX \<Longrightarrow>
   copyPoints cache i pts = Some (pts @ drop (nat i) cache)"
proof (induction cache i pts rule: copyPoints.induct)
  case (1 cache i points)
  have le: "i \<le> INT_MAX" using "1.prems" by linarith
  have idx: "to_size_t i = nat i"
    using "1.prems" le by (simp add: to_size_t_def INT_MAX_def)
  show ?case
  proof (cases "to_size_t i < length cache")
    case True
    then have lt: "i < INT_MAX" using idx "1.prems" by linarith
    have nx: "nat (i + 1) = Suc (nat i)"
      using "1.prems" by simp
    have "copyPoints cache (i + 1) (points @ [cache ! to_size_t i]) =
          Some ((points @ [cache ! to_size_t i]) @ drop (nat (i + 1)) cache)"
      using "1.IH" True lt "1.prems" idx nx by simp
    then show ?thesis
      using True lt idx nx
      by (simp add: copyPoints.simps [of cache i points] Cons_nth_drop_Suc)
  next
    case False
    with idx "1.prems" show ?thesis
      by (simp add: copyPoints.simps [of cache i points])
  qed
qed

lemma copyPoints_whole:
  "int (length cache) \<le> INT_MAX \<Longrightarrow> copyPoints cache 0 [] = Some cache"
  using copyPoints_defined [of 0 cache "[]"] by simp

lemma copyPoints_whole_Some:
  "copyPoints cache 0 [] = Some r \<Longrightarrow> r = cache"
  using copyPoints_Some [of cache 0 "[]" r] by simp


subsection \<open>The submission pump\<close>

lemma new_events_self [simp]: "new_events s s = []"
  by (simp add: new_events_def)


lemma new_events_emits [simp]: "new_events s (emits es s) = es"
  by (simp add: new_events_def emits_def)

text \<open>
  A pass of the pump holds \<^verbatim>\<open>_pointsMutex\<close> from its first statement to its last but one
  (the sleep), and the only other code that touches the cache, \<^verbatim>\<open>addPointToCache\<close>, holds
  it too: between \<open>MutexGrab\<close> and \<open>MutexRelease\<close> no other unit changes the cache, so
  a pass is taken as one step. It goes one of three ways: below the threshold, a failed
  call, a call that returns.
\<close>

lemma sendPointsIter_below:
  "length (g_pointsCache s) < cfg_pointCacheSize (g_config s) \<Longrightarrow>
   sendPointsIter r s = Some (emits [MutexGrab, MutexRelease, Sleep 30] s)"
  by (simp add: sendPointsIter_def emit_def emits_def)

lemma sendPointsIter_failure:
  assumes "cfg_pointCacheSize (g_config s) \<le> length (g_pointsCache s)"
    and "sendPointsIter (Inl err) s = Some s'"
  shows "s' = emits [MutexGrab,
                     LogInfo ''Sending %d points to server'' [ArgNum (int (length (g_pointsCache s)))],
                     LogInfo ''Sending to server\<newline>'' [],
                     SubmitPoints (g_id s) (g_pointsCache s),
                     LogInfo ''Error sending points to server: %s. Will try again later\<newline>'' [ArgStr err],
                     MutexRelease, Sleep 30] s"
  using assms
  by (auto simp add: sendPointsIter_def emit_def emits_def Let_def split: option.splits dest!: copyPoints_whole_Some)

lemma sendPointsIter_success:
  assumes "cfg_pointCacheSize (g_config s) \<le> length (g_pointsCache s)"
    and "sendPointsIter (Inr u) s = Some s'"
  shows "s' = (emits [MutexGrab,
                     LogInfo ''Sending %d points to server'' [ArgNum (int (length (g_pointsCache s)))],
                     LogInfo ''Sending to server\<newline>'' [],
                     SubmitPoints (g_id s) (g_pointsCache s),
                     MutexRelease, Sleep 30] s)\<lparr>g_pointsCache := []\<rparr>"
  using assms
  by (auto simp add: sendPointsIter_def emit_def emits_def Let_def split: option.splits dest!: copyPoints_whole_Some)

lemma sendPointsIter_defined:
  assumes "int (length (g_pointsCache s)) \<le> INT_MAX"
  shows "\<exists>s'. sendPointsIter r s = Some s'"
  using assms
  by (cases r) (simp_all add: sendPointsIter_def emit_def Let_def copyPoints_whole)

text \<open>A pass is undefined only when there is a batch to copy (of more than \<^verbatim>\<open>INT_MAX\<close> points).\<close>

lemma sendPointsIter_None:
  "sendPointsIter r s = None \<Longrightarrow> cfg_pointCacheSize (g_config s) \<le> length (g_pointsCache s)"
  by (auto simp add: sendPointsIter_def emit_def Let_def split: if_splits)


lemma sendPointsIter_copied:
  "cfg_pointCacheSize (g_config s) \<le> length (g_pointsCache s) \<Longrightarrow>
   sendPointsIter r s = Some s' \<Longrightarrow>
   copyPoints (g_pointsCache s) 0 [] = Some (g_pointsCache s)"
  by (auto simp add: sendPointsIter_def emit_def Let_def split: option.splits
      dest!: copyPoints_whole_Some)

lemma sendPointsIter_attempt:
  assumes "cfg_pointCacheSize (g_config s) \<le> length (g_pointsCache s)"
    and "copyPoints (g_pointsCache s) 0 [] = Some (g_pointsCache s)"
  shows "\<exists>s'. sendPointsIter r s = Some s' \<and>
     submissions (new_events s s') = [(g_id s, g_pointsCache s)]"
  using assms
  by (cases r) (simp_all add: sendPointsIter_def emit_def Let_def new_events_def)

lemma submissions_failure [simp]:
  "submissions [MutexGrab, LogInfo a b, LogInfo c d, SubmitPoints i ps, LogInfo e f,
                MutexRelease, Sleep n] = [(i, ps)]"
  by simp

text \<open>
  The thread: a pass that is defined is followed by the rest of the loop, and a pump that
  meets one failure after another hands the same cache to the server in every pass.
\<close>

lemma submissions_append: "submissions (a @ b) = submissions a @ submissions b"
  by (induction a rule: submissions.induct) simp_all

lemma sendPointsThread_pass:
  "g_running s \<Longrightarrow> sendPointsIter r s = Some s1 \<Longrightarrow>
   sendPointsThread (r # rs) s = sendPointsThread rs s1"
  by simp

lemma pump_retries:
  assumes "g_running s"
    and "cfg_pointCacheSize (g_config s) \<le> length (g_pointsCache s)"
    and "copyPoints (g_pointsCache s) 0 [] = Some (g_pointsCache s)"
  shows "\<exists>s' es. sendPointsThread (map Inl errs) s = PumpLooping s' \<and>
           trace s' = trace s @ es \<and>
           submissions es = replicate (length errs) (g_id s, g_pointsCache s) \<and>
           g_pointsCache s' = g_pointsCache s"
  using assms
proof (induction errs arbitrary: s)
  case Nil
  then show ?case by simp
next
  case (Cons e errs)
  let ?es = "[MutexGrab,
     LogInfo ''Sending %d points to server'' [ArgNum (int (length (g_pointsCache s)))],
     LogInfo ''Sending to server\<newline>'' [],
     SubmitPoints (g_id s) (g_pointsCache s),
     LogInfo ''Error sending points to server: %s. Will try again later\<newline>'' [ArgStr e],
     MutexRelease, Sleep 30]"
  obtain s1 where pass: "sendPointsIter (Inl e) s = Some s1"
    using sendPointsIter_attempt [OF Cons.prems(2,3)] by blast
  have s1: "s1 = emits ?es s"
    using Cons.prems(2) pass by (rule sendPointsIter_failure)
  have same: "g_running s1" "g_config s1 = g_config s" "g_pointsCache s1 = g_pointsCache s"
    "g_id s1 = g_id s" "trace s1 = trace s @ ?es"
    using Cons.prems(1) by (simp_all add: s1 emits_def)
  obtain s' es where rest: "sendPointsThread (map Inl errs) s1 = PumpLooping s'"
      "trace s' = trace s1 @ es"
      "submissions es = replicate (length errs) (g_id s1, g_pointsCache s1)"
      "g_pointsCache s' = g_pointsCache s1"
    using Cons.IH [of s1] same Cons.prems by auto
  have "sendPointsThread (map Inl (e # errs)) s = PumpLooping s'"
    using Cons.prems(1) pass rest(1) by simp
  moreover have "trace s' = trace s @ (?es @ es)"
    using rest(2) same(5) by simp
  moreover have "submissions (?es @ es) = replicate (length (e # errs)) (g_id s, g_pointsCache s)"
    using rest(3) same by (simp add: submissions_append)
  moreover have "g_pointsCache s' = g_pointsCache s"
    using rest(4) same by simp
  ultimately show ?case by blast
qed

text \<open>A pass that made the call and met a failure.\<close>

lemma sendPointsIter_failed_pass:
  assumes "cfg_pointCacheSize (g_config s) \<le> length (g_pointsCache s)"
    and "sendPointsIter (Inl err) s = Some s1"
  shows "g_pointsCache s1 = g_pointsCache s \<and>
      submissions (new_events s s1) = [(g_id s, g_pointsCache s)] \<and>
      (\<forall>r. \<exists>s2. sendPointsIter r s1 = Some s2 \<and>
             submissions (new_events s1 s2) = [(g_id s, g_pointsCache s)]) \<and>
      (\<forall>t r t' extra.
         g_pointsCache t = g_pointsCache s1 @ extra \<and> g_config t = g_config s1 \<and>
         sendPointsIter r t = Some t' \<longrightarrow>
         submissions (new_events t t') = [(g_id t, g_pointsCache s @ extra)]) \<and>
      (g_running s \<longrightarrow>
         (\<forall>rs. sendPointsThread (Inl err # rs) s = sendPointsThread rs s1) \<and>
         (\<forall>r rs. \<exists>s2. sendPointsIter r s1 = Some s2 \<and>
                  submissions (new_events s1 s2) = [(g_id s, g_pointsCache s)] \<and>
                  sendPointsThread (Inl err # r # rs) s = sendPointsThread rs s2) \<and>
         (\<forall>errs. \<exists>s'. sendPointsThread (Inl err # map Inl errs) s = PumpLooping s' \<and>
                  submissions (new_events s s') =
                    replicate (Suc (length errs)) (g_id s, g_pointsCache s) \<and>
                  g_pointsCache s' = g_pointsCache s))"
proof -
  let ?es = "[MutexGrab,
     LogInfo ''Sending %d points to server'' [ArgNum (int (length (g_pointsCache s)))],
     LogInfo ''Sending to server\<newline>'' [],
     SubmitPoints (g_id s) (g_pointsCache s),
     LogInfo ''Error sending points to server: %s. Will try again later\<newline>'' [ArgStr err],
     MutexRelease, Sleep 30]"
  have s1: "s1 = emits ?es s"
    using assms by (rule sendPointsIter_failure)
  have cache: "g_pointsCache s1 = g_pointsCache s"
    and cfg: "g_config s1 = g_config s" and ident: "g_id s1 = g_id s"
    and flag: "g_running s1 = g_running s" and tr: "trace s1 = trace s @ ?es"
    by (simp_all add: s1 emits_def)
  have sub: "submissions (new_events s s1) = [(g_id s, g_pointsCache s)]"
    by (simp add: s1)
  have copied: "copyPoints (g_pointsCache s1) 0 [] = Some (g_pointsCache s1)"
    using sendPointsIter_copied [OF assms] cache by simp
  have full1: "cfg_pointCacheSize (g_config s1) \<le> length (g_pointsCache s1)"
    using assms(1) cache cfg by simp
  have again: "\<exists>s2. sendPointsIter r s1 = Some s2 \<and>
                submissions (new_events s1 s2) = [(g_id s, g_pointsCache s)]" for r
    using sendPointsIter_attempt [of s1 r] full1 copied cache ident by simp
  have later: "submissions (new_events t t') = [(g_id t, g_pointsCache s @ extra)]"
    if t: "g_pointsCache t = g_pointsCache s1 @ extra \<and> g_config t = g_config s1 \<and>
           sendPointsIter r t = Some t'" for t r t' extra
  proof -
    have full: "cfg_pointCacheSize (g_config t) \<le> length (g_pointsCache t)"
      using t assms(1) cache cfg by simp
    have "copyPoints (g_pointsCache t) 0 [] = Some (g_pointsCache t)"
      using sendPointsIter_copied [OF full] t by blast
    then obtain u where "sendPointsIter r t = Some u"
        and "submissions (new_events t u) = [(g_id t, g_pointsCache t)]"
      using sendPointsIter_attempt [OF full] by blast
    with t cache show ?thesis by simp
  qed
  have thread: "(\<forall>rs. sendPointsThread (Inl err # rs) s = sendPointsThread rs s1) \<and>
         (\<forall>r rs. \<exists>s2. sendPointsIter r s1 = Some s2 \<and>
                  submissions (new_events s1 s2) = [(g_id s, g_pointsCache s)] \<and>
                  sendPointsThread (Inl err # r # rs) s = sendPointsThread rs s2) \<and>
         (\<forall>errs. \<exists>s'. sendPointsThread (Inl err # map Inl errs) s = PumpLooping s' \<and>
                  submissions (new_events s s') =
                    replicate (Suc (length errs)) (g_id s, g_pointsCache s) \<and>
                  g_pointsCache s' = g_pointsCache s)"
    if run: "g_running s"
  proof (intro conjI allI)
    show first: "sendPointsThread (Inl err # rs) s = sendPointsThread rs s1" for rs
      using run assms(2) by (rule sendPointsThread_pass)
    show "\<exists>s2. sendPointsIter r s1 = Some s2 \<and>
                  submissions (new_events s1 s2) = [(g_id s, g_pointsCache s)] \<and>
                  sendPointsThread (Inl err # r # rs) s = sendPointsThread rs s2" for r rs
    proof -
      obtain s2 where s2: "sendPointsIter r s1 = Some s2"
          "submissions (new_events s1 s2) = [(g_id s, g_pointsCache s)]"
        using again by blast
      have "sendPointsThread (r # rs) s1 = sendPointsThread rs s2"
        using run flag s2(1) by (simp add: sendPointsThread_pass)
      with first s2 show ?thesis by simp
    qed
    show "\<exists>s'. sendPointsThread (Inl err # map Inl errs) s = PumpLooping s' \<and>
                  submissions (new_events s s') =
                    replicate (Suc (length errs)) (g_id s, g_pointsCache s) \<and>
                  g_pointsCache s' = g_pointsCache s" for errs
    proof -
      have run1: "g_running s1" using run flag by simp
      obtain s' es where rest: "sendPointsThread (map Inl errs) s1 = PumpLooping s'"
          "trace s' = trace s1 @ es"
          "submissions es = replicate (length errs) (g_id s1, g_pointsCache s1)"
          "g_pointsCache s' = g_pointsCache s1"
        using pump_retries [OF run1 full1 copied, of errs] by blast
      have "new_events s s' = ?es @ es"
        using rest(2) tr by (simp add: new_events_def)
      then have "submissions (new_events s s') =
          replicate (Suc (length errs)) (g_id s, g_pointsCache s)"
        using rest(3) cache ident by (simp add: submissions_append)
      with first rest(1,4) cache show ?thesis by simp
    qed
  qed
  from cache sub again later thread show ?thesis by blast
qed

text \<open>
  C1. A pass of the pump is defined whenever the cache holds at most \<^verbatim>\<open>INT_MAX\<close>
  points. A pass whose \<^verbatim>\<open>submitPoints\<close> call throws leaves the cache as it was:
  the batch handed to the server was the whole cache, nothing is removed, and the next
  pass, whatever the server does then, hands over the same points again; if the
  callback has appended points in between, they follow the same points in that batch.
  The thread does make that next pass: with \<^verbatim>\<open>_running\<close> true, \<^verbatim>\<open>sendPointsThread\<close> after the
  failed pass is \<^verbatim>\<open>sendPointsThread\<close> from the state the pass left, its second pass submits
  the same points, and however many failures follow one another, every pass submits the
  same cache and the thread is still looping with the cache intact.
\<close>

theorem failed_submission_keeps_cache:
  "(int (length (g_pointsCache s)) \<le> INT_MAX \<longrightarrow> (\<exists>s1. sendPointsIter (Inl err) s = Some s1)) \<and>
   (cfg_pointCacheSize (g_config s) \<le> length (g_pointsCache s) \<and>
    sendPointsIter (Inl err) s = Some s1 \<longrightarrow>
      g_pointsCache s1 = g_pointsCache s \<and>
      submissions (new_events s s1) = [(g_id s, g_pointsCache s)] \<and>
      (\<forall>r. \<exists>s2. sendPointsIter r s1 = Some s2 \<and>
             submissions (new_events s1 s2) = [(g_id s, g_pointsCache s)]) \<and>
      (\<forall>t r t' extra.
         g_pointsCache t = g_pointsCache s1 @ extra \<and> g_config t = g_config s1 \<and>
         sendPointsIter r t = Some t' \<longrightarrow>
         submissions (new_events t t') = [(g_id t, g_pointsCache s @ extra)]) \<and>
      (g_running s \<longrightarrow>
         (\<forall>rs. sendPointsThread (Inl err # rs) s = sendPointsThread rs s1) \<and>
         (\<forall>r rs. \<exists>s2. sendPointsIter r s1 = Some s2 \<and>
                  submissions (new_events s1 s2) = [(g_id s, g_pointsCache s)] \<and>
                  sendPointsThread (Inl err # r # rs) s = sendPointsThread rs s2) \<and>
         (\<forall>errs. \<exists>s'. sendPointsThread (Inl err # map Inl errs) s = PumpLooping s' \<and>
                  submissions (new_events s s') =
                    replicate (Suc (length errs)) (g_id s, g_pointsCache s) \<and>
                  g_pointsCache s' = g_pointsCache s)))"
proof (rule conjI)
  show "int (length (g_pointsCache s)) \<le> INT_MAX \<longrightarrow> (\<exists>s1. sendPointsIter (Inl err) s = Some s1)"
    using sendPointsIter_defined by blast
qed (intro impI, elim conjE, rule sendPointsIter_failed_pass)

theorem failed_submission_keeps_cache_witness:
  "cfg_pointCacheSize (g_config (sample_state [dp1, dp2])) \<le> length (g_pointsCache (sample_state [dp1, dp2])) \<and>
   g_running (sample_state [dp1, dp2]) \<and>
   sendPointsIter (Inl ''timeout'') (sample_state [dp1, dp2]) =
     Some (emits [MutexGrab,
                  LogInfo ''Sending %d points to server'' [ArgNum 2],
                  LogInfo ''Sending to server\<newline>'' [],
                  SubmitPoints ''p1'' [dp1, dp2],
                  LogInfo ''Error sending points to server: %s. Will try again later\<newline>''
                    [ArgStr ''timeout''],
                  MutexRelease, Sleep 30] (sample_state [dp1, dp2])) \<and>
   g_pointsCache (emits [MutexGrab,
                  LogInfo ''Sending %d points to server'' [ArgNum 2],
                  LogInfo ''Sending to server\<newline>'' [],
                  SubmitPoints ''p1'' [dp1, dp2],
                  LogInfo ''Error sending points to server: %s. Will try again later\<newline>''
                    [ArgStr ''timeout''],
                  MutexRelease, Sleep 30] (sample_state [dp1, dp2])) = [dp1, dp2] \<and>
   (\<exists>s'. sendPointsThread [Inl ''timeout'', Inl ''busy''] (sample_state [dp1, dp2]) =
           PumpLooping s' \<and>
         submissions (new_events (sample_state [dp1, dp2]) s') =
           [(''p1'', [dp1, dp2]), (''p1'', [dp1, dp2])] \<and>
         g_pointsCache s' = [dp1, dp2])"
proof -
  let ?s = "sample_state [dp1, dp2]"
  let ?s1 = "emits [MutexGrab,
                  LogInfo ''Sending %d points to server'' [ArgNum 2],
                  LogInfo ''Sending to server\<newline>'' [],
                  SubmitPoints ''p1'' [dp1, dp2],
                  LogInfo ''Error sending points to server: %s. Will try again later\<newline>''
                    [ArgStr ''timeout''],
                  MutexRelease, Sleep 30] ?s"
  have h1: "cfg_pointCacheSize (g_config ?s) \<le> length (g_pointsCache ?s)"
    by (simp add: sample_state_def sample_config_def)
  have h2: "sendPointsIter (Inl ''timeout'') ?s = Some ?s1"
    by (simp add: sendPointsIter_def sample_state_def sample_config_def emit_def emits_def
        copyPoints_whole INT_MAX_def)
  have h3: "g_running ?s"
    by (simp add: sample_state_def)
  note c1 = failed_submission_keeps_cache [of ?s "''timeout''" ?s1]
  have kept: "g_pointsCache ?s1 = g_pointsCache ?s"
    using c1 h1 h2 by blast
  have "\<forall>errs. \<exists>s'. sendPointsThread (Inl ''timeout'' # map Inl errs) ?s = PumpLooping s' \<and>
                  submissions (new_events ?s s') =
                    replicate (Suc (length errs)) (g_id ?s, g_pointsCache ?s) \<and>
                  g_pointsCache s' = g_pointsCache ?s"
    using c1 h1 h2 h3 by blast
  then have "\<exists>s'. sendPointsThread (Inl ''timeout'' # map Inl [''busy'']) ?s = PumpLooping s' \<and>
                  submissions (new_events ?s s') =
                    replicate (Suc (length [''busy''])) (g_id ?s, g_pointsCache ?s) \<and>
                  g_pointsCache s' = g_pointsCache ?s"
    by (rule spec)
  then have twice: "\<exists>s'. sendPointsThread [Inl ''timeout'', Inl ''busy''] ?s = PumpLooping s' \<and>
         submissions (new_events ?s s') = [(''p1'', [dp1, dp2]), (''p1'', [dp1, dp2])] \<and>
         g_pointsCache s' = [dp1, dp2]"
    by (simp add: sample_state_def)
  from kept h1 h2 h3 twice show ?thesis
    by (simp add: sample_state_def)
qed

text \<open>A pass that made the call and met success.\<close>

lemma sendPointsIter_successful_pass:
  assumes "cfg_pointCacheSize (g_config s) \<le> length (g_pointsCache s)"
    and "sendPointsIter (Inr u) s = Some s'"
  shows "new_events s s' =
           [MutexGrab,
            LogInfo ''Sending %d points to server'' [ArgNum (int (length (g_pointsCache s)))],
            LogInfo ''Sending to server\<newline>'' [],
            SubmitPoints (g_id s) (g_pointsCache s),
            MutexRelease, Sleep 30] \<and>
         submissions (new_events s s') = [(g_id s, g_pointsCache s)] \<and>
         g_pointsCache s' = [] \<and>
         mset (concat (map snd (submissions (new_events s s')))) + mset (g_pointsCache s') =
           mset (g_pointsCache s)"
proof -
  have s': "s' = (emits [MutexGrab,
            LogInfo ''Sending %d points to server'' [ArgNum (int (length (g_pointsCache s)))],
            LogInfo ''Sending to server\<newline>'' [],
            SubmitPoints (g_id s) (g_pointsCache s),
            MutexRelease, Sleep 30] s)\<lparr>g_pointsCache := []\<rparr>"
    using assms by (rule sendPointsIter_success)
  have ev: "new_events s s' =
           [MutexGrab,
            LogInfo ''Sending %d points to server'' [ArgNum (int (length (g_pointsCache s)))],
            LogInfo ''Sending to server\<newline>'' [],
            SubmitPoints (g_id s) (g_pointsCache s),
            MutexRelease, Sleep 30]"
    by (simp add: s' new_events_def emits_def)
  have empty: "g_pointsCache s' = []"
    by (simp add: s')
  show ?thesis
    by (simp add: ev empty)
qed

text \<open>
  C2. A pass of the pump is defined whenever the cache holds at most \<^verbatim>\<open>INT_MAX\<close>
  points. A pass whose \<^verbatim>\<open>submitPoints\<close> call returns has made exactly one call,
  between taking and releasing the lock, with the whole cache as it stood; afterwards the
  cache is empty. What was submitted together with what remains is what was cached: no
  point is lost and none is duplicated.
\<close>

theorem successful_submission_empties_cache:
  "(int (length (g_pointsCache s)) \<le> INT_MAX \<longrightarrow> (\<exists>s'. sendPointsIter (Inr u) s = Some s')) \<and>
   (cfg_pointCacheSize (g_config s) \<le> length (g_pointsCache s) \<and>
    sendPointsIter (Inr u) s = Some s' \<longrightarrow>
      new_events s s' =
        [MutexGrab,
         LogInfo ''Sending %d points to server'' [ArgNum (int (length (g_pointsCache s)))],
         LogInfo ''Sending to server\<newline>'' [],
         SubmitPoints (g_id s) (g_pointsCache s),
         MutexRelease, Sleep 30] \<and>
      submissions (new_events s s') = [(g_id s, g_pointsCache s)] \<and>
      g_pointsCache s' = [] \<and>
      mset (concat (map snd (submissions (new_events s s')))) + mset (g_pointsCache s') =
        mset (g_pointsCache s))"
proof (rule conjI)
  show "int (length (g_pointsCache s)) \<le> INT_MAX \<longrightarrow> (\<exists>s'. sendPointsIter (Inr u) s = Some s')"
    using sendPointsIter_defined by blast
qed (intro impI, elim conjE, rule sendPointsIter_successful_pass)

theorem successful_submission_empties_cache_witness:
  "cfg_pointCacheSize (g_config (sample_state [dp1, dp2])) \<le> length (g_pointsCache (sample_state [dp1, dp2])) \<and>
   sendPointsIter (Inr ()) (sample_state [dp1, dp2]) =
     Some ((emits [MutexGrab,
                  LogInfo ''Sending %d points to server'' [ArgNum 2],
                  LogInfo ''Sending to server\<newline>'' [],
                  SubmitPoints ''p1'' [dp1, dp2],
                  MutexRelease, Sleep 30] (sample_state [dp1, dp2]))\<lparr>g_pointsCache := []\<rparr>) \<and>
   submissions (new_events (sample_state [dp1, dp2])
     ((emits [MutexGrab,
                  LogInfo ''Sending %d points to server'' [ArgNum 2],
                  LogInfo ''Sending to server\<newline>'' [],
                  SubmitPoints ''p1'' [dp1, dp2],
                  MutexRelease, Sleep 30] (sample_state [dp1, dp2]))\<lparr>g_pointsCache := []\<rparr>)) =
     [(''p1'', [dp1, dp2])]"
proof -
  let ?s = "sample_state [dp1, dp2]"
  let ?s1 = "(emits [MutexGrab,
                  LogInfo ''Sending %d points to server'' [ArgNum 2],
                  LogInfo ''Sending to server\<newline>'' [],
                  SubmitPoints ''p1'' [dp1, dp2],
                  MutexRelease, Sleep 30] ?s)\<lparr>g_pointsCache := []\<rparr>"
  have h1: "cfg_pointCacheSize (g_config ?s) \<le> length (g_pointsCache ?s)"
    by (simp add: sample_state_def sample_config_def)
  have h2: "sendPointsIter (Inr ()) ?s = Some ?s1"
    by (simp add: sendPointsIter_def sample_state_def sample_config_def emit_def emits_def
        copyPoints_whole INT_MAX_def)
  have "submissions (new_events ?s ?s1) = [(g_id ?s, g_pointsCache ?s)]"
    using successful_submission_empties_cache [of ?s "()" ?s1] h1 h2 by blast
  then show ?thesis
    using h1 h2 by (simp add: sample_state_def)
qed

text \<open>
  C4. A pass of the pump that finds fewer points than \<^verbatim>\<open>pointCacheSize\<close> completes
  without any call to the server and leaves the cache alone; a pass in which a call to
  the server occurs found at least \<^verbatim>\<open>pointCacheSize\<close> points; and a pass that found that
  many makes exactly one call, the \<^verbatim>\<open>submitPoints\<close> of the whole cache.
\<close>

theorem submission_only_at_threshold:
  "(length (g_pointsCache s) < cfg_pointCacheSize (g_config s) \<longrightarrow>
      (\<exists>s'. sendPointsIter r s = Some s' \<and> filter is_server_event (new_events s s') = [] \<and>
            g_pointsCache s' = g_pointsCache s)) \<and>
   (\<forall>s'. sendPointsIter r s = Some s' \<and> filter is_server_event (new_events s s') \<noteq> [] \<longrightarrow>
      cfg_pointCacheSize (g_config s) \<le> length (g_pointsCache s)) \<and>
   (\<forall>s'. sendPointsIter r s = Some s' \<and>
         cfg_pointCacheSize (g_config s) \<le> length (g_pointsCache s) \<longrightarrow>
      filter is_server_event (new_events s s') = [SubmitPoints (g_id s) (g_pointsCache s)])"
proof (intro conjI impI allI)
  assume below: "length (g_pointsCache s) < cfg_pointCacheSize (g_config s)"
  have "sendPointsIter r s = Some (emits [MutexGrab, MutexRelease, Sleep 30] s)"
    using below by (rule sendPointsIter_below)
  then show "\<exists>s'. sendPointsIter r s = Some s' \<and> filter is_server_event (new_events s s') = [] \<and>
            g_pointsCache s' = g_pointsCache s"
    by (simp add: emits_def new_events_def)
next
  fix s'
  assume a: "sendPointsIter r s = Some s' \<and> filter is_server_event (new_events s s') \<noteq> []"
  show "cfg_pointCacheSize (g_config s) \<le> length (g_pointsCache s)"
  proof (rule ccontr)
    assume "\<not> cfg_pointCacheSize (g_config s) \<le> length (g_pointsCache s)"
    then have "sendPointsIter r s = Some (emits [MutexGrab, MutexRelease, Sleep 30] s)"
      by (simp add: sendPointsIter_below)
    with a show False by auto
  qed
next
  fix s'
  assume a: "sendPointsIter r s = Some s' \<and>
         cfg_pointCacheSize (g_config s) \<le> length (g_pointsCache s)"
  show "filter is_server_event (new_events s s') = [SubmitPoints (g_id s) (g_pointsCache s)]"
  proof (cases r)
    case (Inl err)
    with a show ?thesis using sendPointsIter_failure [of s err s'] by simp
  next
    case (Inr u)
    with a show ?thesis using sendPointsIter_success [of s u s']
      by (simp add: new_events_def emits_def)
  qed
qed


theorem submission_only_at_threshold_witness:
  "length (g_pointsCache (sample_state [dp1])) < cfg_pointCacheSize (g_config (sample_state [dp1])) \<and>
   sendPointsIter (Inr ()) (sample_state [dp1]) =
     Some (emits [MutexGrab, MutexRelease, Sleep 30] (sample_state [dp1])) \<and>
   filter is_server_event
     (new_events (sample_state [dp1, dp2])
        (emits [MutexGrab,
                LogInfo ''Sending %d points to server'' [ArgNum 2],
                LogInfo ''Sending to server\<newline>'' [],
                SubmitPoints ''p1'' [dp1, dp2],
                LogInfo ''Error sending points to server: %s. Will try again later\<newline>''
                  [ArgStr ''timeout''],
                MutexRelease, Sleep 30] (sample_state [dp1, dp2]))) =
     [SubmitPoints ''p1'' [dp1, dp2]] \<and>
   cfg_pointCacheSize (g_config (sample_state [dp1, dp2])) \<le>
     length (g_pointsCache (sample_state [dp1, dp2]))"
proof -
  let ?s = "sample_state [dp1]"
  let ?t = "sample_state [dp1, dp2]"
  let ?t1 = "emits [MutexGrab,
                LogInfo ''Sending %d points to server'' [ArgNum 2],
                LogInfo ''Sending to server\<newline>'' [],
                SubmitPoints ''p1'' [dp1, dp2],
                LogInfo ''Error sending points to server: %s. Will try again later\<newline>''
                  [ArgStr ''timeout''],
                MutexRelease, Sleep 30] ?t"
  have h1: "length (g_pointsCache ?s) < cfg_pointCacheSize (g_config ?s)"
    by (simp add: sample_state_def sample_config_def)
  have "\<exists>s'. sendPointsIter (Inr ()) ?s = Some s' \<and> filter is_server_event (new_events ?s s') = []
     \<and> g_pointsCache s' = g_pointsCache ?s"
    using submission_only_at_threshold [of ?s "Inr ()"] h1 by blast
  then have below: "sendPointsIter (Inr ()) ?s = Some (emits [MutexGrab, MutexRelease, Sleep 30] ?s)"
    by (simp add: sendPointsIter_def sample_state_def sample_config_def emit_def emits_def)
  have h2: "sendPointsIter (Inl ''timeout'') ?t = Some ?t1"
    by (simp add: sendPointsIter_def sample_state_def sample_config_def emit_def emits_def
        copyPoints_whole INT_MAX_def)
  have h3: "filter is_server_event (new_events ?t ?t1) = [SubmitPoints ''p1'' [dp1, dp2]]"
    by simp
  have "cfg_pointCacheSize (g_config ?t) \<le> length (g_pointsCache ?t)"
    using submission_only_at_threshold [of ?t "Inl ''timeout''"] h2 h3 by auto
  with h1 below h3 show ?thesis by simp
qed

subsection \<open>The verifier callback\<close>

text \<open>
  C3. When the candidate's point fails \<^verbatim>\<open>verifyPoint\<close> the callback logs the candidate
  (coefficients, coordinates, length) and leaves the cache as it was. When the point
  passes, the cache has grown by exactly one element, appended under the lock, and its
  last element is the distinguished point built from the candidate's five fields.
\<close>

theorem callback_verifies_then_appends:
  "(\<not> verifyPoint E (cb_x p) (cb_y p) s \<longrightarrow>
      g_pointsCache (pointFoundCallback E p s) = g_pointsCache s \<and>
      new_events s (pointFoundCallback E p s) =
        [LogInfo ''INVALID POINT\<newline>'' [],
         LogInfo ''a: %s'' [ArgHex (cb_aStart p)],
         LogInfo ''b: %s'' [ArgHex (cb_bStart p)],
         LogInfo ''x: %s'' [ArgHex (cb_x p)],
         LogInfo ''y: %s'' [ArgHex (cb_y p)],
         LogInfo ''length: %d'' [ArgNum (uint (cb_length p))]]) \<and>
   (verifyPoint E (cb_x p) (cb_y p) s \<longrightarrow>
      length (g_pointsCache (pointFoundCallback E p s)) = length (g_pointsCache s) + 1 \<and>
      last (g_pointsCache (pointFoundCallback E p s)) =
        \<lparr>dp_a = cb_aStart p, dp_b = cb_bStart p, dp_x = cb_x p, dp_y = cb_y p,
         dp_length = cb_length p\<rparr> \<and>
      g_pointsCache (pointFoundCallback E p s) =
        g_pointsCache s @ [\<lparr>dp_a = cb_aStart p, dp_b = cb_bStart p, dp_x = cb_x p,
                            dp_y = cb_y p, dp_length = cb_length p\<rparr>] \<and>
      new_events s (pointFoundCallback E p s) = [MutexGrab, MutexRelease])"
  by (simp add: pointFoundCallback_def addPointToCache_def emit_def emits_def new_events_def Let_def)

theorem callback_verifies_then_appends_witness:
  "\<not> verifyPoint sample_env (cb_x cand_off) (cb_y cand_off) (sample_engine_state [dp1]) \<and>
   g_pointsCache (pointFoundCallback sample_env cand_off (sample_engine_state [dp1])) = [dp1] \<and>
   verifyPoint sample_env (cb_x cand_on) (cb_y cand_on) (sample_engine_state [dp1]) \<and>
   g_pointsCache (pointFoundCallback sample_env cand_on (sample_engine_state [dp1])) = [dp1, dp2]"
proof -
  have off: "\<not> verifyPoint sample_env (cb_x cand_off) (cb_y cand_off) (sample_engine_state [dp1])"
    by (simp add: verifyPoint_def sample_env_def sample_pointExists_def cand_off_def
        sample_engine_state_def sample_state_def sample_params_def)
  have on: "verifyPoint sample_env (cb_x cand_on) (cb_y cand_on) (sample_engine_state [dp1])"
    by (simp add: verifyPoint_def sample_env_def sample_pointExists_def cand_on_def
        sample_engine_state_def sample_state_def sample_params_def)
  have "g_pointsCache (pointFoundCallback sample_env cand_off (sample_engine_state [dp1])) =
        g_pointsCache (sample_engine_state [dp1])"
    using callback_verifies_then_appends [of sample_env cand_off "sample_engine_state [dp1]"] off
    by blast
  moreover have "g_pointsCache (pointFoundCallback sample_env cand_on (sample_engine_state [dp1])) =
        g_pointsCache (sample_engine_state [dp1]) @
          [\<lparr>dp_a = cb_aStart cand_on, dp_b = cb_bStart cand_on, dp_x = cb_x cand_on,
            dp_y = cb_y cand_on, dp_length = cb_length cand_on\<rparr>]"
    using callback_verifies_then_appends [of sample_env cand_on "sample_engine_state [dp1]"] on
    by blast
  ultimately show ?thesis
    using off on by (simp add: sample_engine_state_def sample_state_def cand_on_def dp2_def)
qed

text \<open>
  C10. Whether it accepts or rejects the candidate, the callback leaves the problem
  parameters, both jump-table arrays, the engine handle, the problem id, the
  configuration, the running flag and the server connection as they were.
\<close>

theorem callback_changes_only_cache:
  "g_params (pointFoundCallback E p s) = g_params s \<and>
   g_rx (pointFoundCallback E p s) = g_rx s \<and>
   g_ry (pointFoundCallback E p s) = g_ry s \<and>
   g_context (pointFoundCallback E p s) = g_context s \<and>
   g_id (pointFoundCallback E p s) = g_id s \<and>
   g_config (pointFoundCallback E p s) = g_config s \<and>
   g_running (pointFoundCallback E p s) = g_running s \<and>
   g_serverConnection (pointFoundCallback E p s) = g_serverConnection s"
  by (simp add: pointFoundCallback_def addPointToCache_def emit_def emits_def Let_def)

subsection \<open>The copy loop of the jump table\<close>

text \<open>On arrays of 32 entries the loop leaves exactly the message's 32 points.\<close>

lemma copyRPoints_from:
  "i \<le> 32 \<Longrightarrow> length (fst r) = 32 \<Longrightarrow> length (snd r) = 32 \<Longrightarrow>
   length (msg_rx m) = 32 \<Longrightarrow> length (msg_ry m) = 32 \<Longrightarrow>
   copyRPoints m i r =
     (take i (fst r) @ drop i (msg_rx m), take i (snd r) @ drop i (msg_ry m))"
proof (induction m i r rule: copyRPoints.induct)
  case (1 m i rx ry)
  show ?case
  proof (cases "i < 32")
    case True
    have "copyRPoints m (i + 1) (rx[i := msg_rx m ! i], ry[i := msg_ry m ! i]) =
          (take (i + 1) (rx[i := msg_rx m ! i]) @ drop (i + 1) (msg_rx m),
           take (i + 1) (ry[i := msg_ry m ! i]) @ drop (i + 1) (msg_ry m))"
      using "1.IH" True "1.prems" by simp
    moreover have "take (i + 1) (rx[i := msg_rx m ! i]) = take i rx @ [msg_rx m ! i]"
      "take (i + 1) (ry[i := msg_ry m ! i]) = take i ry @ [msg_ry m ! i]"
      using True "1.prems" by (simp_all add: take_Suc_conv_app_nth)
    moreover have "drop i (msg_rx m) = msg_rx m ! i # drop (i + 1) (msg_rx m)"
      "drop i (msg_ry m) = msg_ry m ! i # drop (i + 1) (msg_ry m)"
      using True "1.prems" by (simp_all add: Cons_nth_drop_Suc)
    ultimately show ?thesis
      using True by (simp add: copyRPoints.simps [of m i rx ry])
  next
    case False
    then have "copyRPoints m i (rx, ry) = (rx, ry)"
      by (simp add: copyRPoints.simps [of m i rx ry])
    with False "1.prems" show ?thesis by simp
  qed
qed

lemma copyRPoints_whole:
  "length rx = 32 \<Longrightarrow> length ry = 32 \<Longrightarrow> length (msg_rx m) = 32 \<Longrightarrow>
   length (msg_ry m) = 32 \<Longrightarrow> copyRPoints m 0 (rx, ry) = (msg_rx m, msg_ry m)"
  using copyRPoints_from [of 0 "(rx, ry)" m] by simp

subsection \<open>The poll loop\<close>

text \<open>Runs of events: the normal form \<open>emits es s\<close> of a state that only recorded events.\<close>

lemma emit_emits: "emit e s = emits [e] s"
  by (simp add: emit_def emits_def)

lemma emits_emits: "emits es (emits es' s) = emits (es' @ es) s"
  by (simp add: emits_def)

lemma emits_sel [simp]:
  "g_context (emits es s) = g_context s"
  "g_rx (emits es s) = g_rx s"
  "g_ry (emits es s) = g_ry s"
  "g_params (emits es s) = g_params s"
  "g_id (emits es s) = g_id s"
  "g_serverConnection (emits es s) = g_serverConnection s"
  "g_config (emits es s) = g_config s"
  "g_pointsCache (emits es s) = g_pointsCache s"
  "g_running (emits es s) = g_running s"
  "trace (emits es s) = trace s @ es"
  by (simp_all add: emits_def)

lemma emits_upd:
  "emits es (s\<lparr>g_context := c\<rparr>) = (emits es s)\<lparr>g_context := c\<rparr>"
  "emits es (s\<lparr>g_params := p\<rparr>) = (emits es s)\<lparr>g_params := p\<rparr>"
  "emits es (s\<lparr>g_rx := x\<rparr>) = (emits es s)\<lparr>g_rx := x\<rparr>"
  "emits es (s\<lparr>g_ry := y\<rparr>) = (emits es s)\<lparr>g_ry := y\<rparr>"
  "emits es (s\<lparr>g_running := r\<rparr>) = (emits es s)\<lparr>g_running := r\<rparr>"
  "emits es (s\<lparr>g_config := cf\<rparr>) = (emits es s)\<lparr>g_config := cf\<rparr>"
  "emits es (s\<lparr>g_id := i\<rparr>) = (emits es s)\<lparr>g_id := i\<rparr>"
  "emits es (s\<lparr>g_serverConnection := sc\<rparr>) = (emits es s)\<lparr>g_serverConnection := sc\<rparr>"
  "emits es (s\<lparr>g_pointsCache := pc\<rparr>) = (emits es s)\<lparr>g_pointsCache := pc\<rparr>"
  by (simp_all add: emits_def)

lemma new_events_emits_upd [simp]:
  "new_events s ((emits es s)\<lparr>g_context := c\<rparr>) = es"
  "new_events s ((emits es s)\<lparr>g_pointsCache := pc\<rparr>) = es"
  by (simp_all add: new_events_def emits_def)

lemma getNewContext_eq:
  "getNewContext E n s =
     (if def_CPU E then Some (ECDLCpuContext (cfg_threads (g_config s)) (cfg_pointsPerThread (g_config s)) n)
      else if def_CUDA E then
        Some (ECDLCudaContext (cfg_device (g_config s)) (cfg_blocks (g_config s))
               (cfg_threads (g_config s)) (cfg_pointsPerThread (g_config s)) n)
      else None,
      emits ((if def_CUDA E then
                [LogInfo ''Creating CUDA context...'' [],
                 NewContext (ECDLCudaContext (cfg_device (g_config s)) (cfg_blocks (g_config s))
                   (cfg_threads (g_config s)) (cfg_pointsPerThread (g_config s)) n)]
              else []) @
             (if def_CPU E then
                [NewContext (ECDLCpuContext (cfg_threads (g_config s))
                   (cfg_pointsPerThread (g_config s)) n)]
              else [])) s)"
  by (simp add: getNewContext_def emit_emits emits_emits Let_def)

lemma getParameters_ok:
  "getParameters (Inr m) s =
     (True, (emits [GetParameters (g_id s)] s)
        \<lparr>g_params := \<lparr>prm_p = msg_p m, prm_n = msg_n m, prm_a = msg_a m, prm_b = msg_b m,
                      prm_gx = msg_gx m, prm_gy = msg_gy m, prm_qx = msg_qx m,
                      prm_qy = msg_qy m, prm_dBits = msg_dBits m\<rparr>,
         g_rx := fst (copyRPoints m 0 (g_rx s, g_ry s)),
         g_ry := snd (copyRPoints m 0 (g_rx s, g_ry s))\<rparr>)"
  by (simp add: getParameters_def emit_emits Let_def split_beta)

lemma getParameters_failed:
  "getParameters (Inl e) s =
     (False, emits [GetParameters (g_id s), LogInfo ''Error: %s\<newline>'' [ArgStr e]] s)"
  by (simp add: getParameters_def emit_emits emits_emits Let_def)

text \<open>The six ways one poll goes, each with the state it ends in.\<close>

lemma pollIter_transport_failure:
  "in_status inp = Inl e \<Longrightarrow>
   pollIter E inp s =
     Continue (emits [LogInfo ''Connecting to server...'' [], GetStatus (g_id s),
                      LogInfo ''Connection error: %s\<newline>'' [ArgStr e],
                      LogInfo ''Retrying in 60 seconds...\<newline>'' [],
                      Sleep 60] s)"
  by (simp add: pollIter_def emit_emits emits_emits Let_def)

lemma pollIter_other:
  "in_status inp = Inr st \<Longrightarrow> st \<noteq> SERVER_STATUS_RUNNING E \<Longrightarrow> st \<noteq> SERVER_STATUS_STOPPED E \<Longrightarrow>
   pollIter E inp s =
     Continue (emits [LogInfo ''Connecting to server...'' [], GetStatus (g_id s),
                      LogInfo ''Status = %d\<newline>'' [ArgNum (uint st)],
                      Sleep 300] s)"
  by (simp add: pollIter_def emit_emits emits_emits Let_def)

lemma pollIter_stopped:
  "in_status inp = Inr st \<Longrightarrow> st \<noteq> SERVER_STATUS_RUNNING E \<Longrightarrow> st = SERVER_STATUS_STOPPED E \<Longrightarrow>
   pollIter E inp s =
     Break (emits ([LogInfo ''Connecting to server...'' [], GetStatus (g_id s),
                    LogInfo ''Status = %d\<newline>'' [ArgNum (uint st)],
                    LogInfo ''Stopping'' []] @
                   (if g_context s \<noteq> None then [ContextStop, ContextDelete] else [])) s)"
  by (simp add: pollIter_def emit_emits emits_emits Let_def)

lemma pollIter_engine_exists:
  "in_status inp = Inr st \<Longrightarrow> st = SERVER_STATUS_RUNNING E \<Longrightarrow> g_context s = Some c \<Longrightarrow>
   pollIter E inp s =
     Continue (emits ([LogInfo ''Connecting to server...'' [], GetStatus (g_id s),
                    LogInfo ''Status = %d\<newline>'' [ArgNum (uint st)],
                    ContextIsRunning] @
                   (if in_isRunning inp then [] else [ThreadStart RunningThread]) @
                   [Sleep 300]) s)"
  by (simp add: pollIter_def emit_emits emits_emits Let_def)

lemma pollIter_fetch_failed:
  "in_status inp = Inr st \<Longrightarrow> st = SERVER_STATUS_RUNNING E \<Longrightarrow> g_context s = None \<Longrightarrow>
   in_params inp = Inl e \<Longrightarrow>
   pollIter E inp s =
     Continue (emits [LogInfo ''Connecting to server...'' [], GetStatus (g_id s),
                    LogInfo ''Status = %d\<newline>'' [ArgNum (uint st)],
                    GetParameters (g_id s),
                    LogInfo ''Error: %s\<newline>'' [ArgStr e],
                    LogError ''Error getting the parameters from server\<newline>'' [],
                    Sleep 300] s)"
  by (simp add: pollIter_def getParameters_failed emit_emits emits_emits Let_def)

lemma pollIter_fetched:
  assumes "in_status inp = Inr st" and "st = SERVER_STATUS_RUNNING E" and "g_context s = None"
    and "in_params inp = Inr m"
  shows "pollIter E inp s =
     (if def_CUDA E \<or> def_CPU E then Continue else Crash)
       ((emits ([LogInfo ''Connecting to server...'' [], GetStatus (g_id s),
                LogInfo ''Status = %d\<newline>'' [ArgNum (uint st)],
                GetParameters (g_id s),
                LogInfo ''Received parameters from server'' [],
                LogInfo ''GF(p) = %s'' [ArgBig (msg_p m)],
                LogInfo ''y^2 = x^3 + %sx + %s'' [ArgBig (msg_a m), ArgBig (msg_b m)],
                LogInfo ''n = %s'' [ArgBig (msg_n m)],
                LogInfo ''G = [%s, %s]'' [ArgBig (msg_gx m), ArgBig (msg_gy m)],
                LogInfo ''Q = [%s, %s]'' [ArgBig (msg_qx m), ArgBig (msg_qy m)],
                LogInfo ''%d distinguished bits'' [ArgNum (uint (msg_dBits m))]] @
               (if def_CUDA E then
                  [LogInfo ''Creating CUDA context...'' [],
                   NewContext (ECDLCudaContext (cfg_device (g_config s)) (cfg_blocks (g_config s))
                     (cfg_threads (g_config s)) (cfg_pointsPerThread (g_config s)) NUM_R_POINTS)]
                else []) @
               (if def_CPU E then
                  [NewContext (ECDLCpuContext (cfg_threads (g_config s))
                     (cfg_pointsPerThread (g_config s)) NUM_R_POINTS)]
                else []) @
               (if def_CUDA E \<or> def_CPU E then [ContextInit, ThreadStart RunningThread, Sleep 300]
                else [])) s)
        \<lparr>g_context :=
           (if def_CPU E then
              Some (ECDLCpuContext (cfg_threads (g_config s)) (cfg_pointsPerThread (g_config s))
                     NUM_R_POINTS)
            else if def_CUDA E then
              Some (ECDLCudaContext (cfg_device (g_config s)) (cfg_blocks (g_config s))
                     (cfg_threads (g_config s)) (cfg_pointsPerThread (g_config s)) NUM_R_POINTS)
            else None),
         g_rx := fst (copyRPoints m 0 (g_rx s, g_ry s)),
         g_ry := snd (copyRPoints m 0 (g_rx s, g_ry s)),
         g_params := \<lparr>prm_p = msg_p m, prm_n = msg_n m, prm_a = msg_a m, prm_b = msg_b m,
                      prm_gx = msg_gx m, prm_gy = msg_gy m, prm_qx = msg_qx m,
                      prm_qy = msg_qy m, prm_dBits = msg_dBits m\<rparr>\<rparr>)"
  using assms
  by (simp add: pollIter_def getParameters_ok getNewContext_eq emit_emits emits_emits emits_upd Let_def)


lemma pollIter_cases [case_names failure other stopped engine fetch_failed fetched]:
  obtains
    e where "in_status inp = Inl e"
  | st where "in_status inp = Inr st" and "st \<noteq> SERVER_STATUS_RUNNING E"
      and "st \<noteq> SERVER_STATUS_STOPPED E"
  | st where "in_status inp = Inr st" and "st \<noteq> SERVER_STATUS_RUNNING E"
      and "st = SERVER_STATUS_STOPPED E"
  | st c where "in_status inp = Inr st" and "st = SERVER_STATUS_RUNNING E"
      and "g_context s = Some c"
  | st e where "in_status inp = Inr st" and "st = SERVER_STATUS_RUNNING E"
      and "g_context s = None" and "in_params inp = Inl e"
  | st m where "in_status inp = Inr st" and "st = SERVER_STATUS_RUNNING E"
      and "g_context s = None" and "in_params inp = Inr m"
proof (cases "in_status inp")
  case (Inl e)
  then show ?thesis using that(1) by blast
next
  case (Inr st)
  show ?thesis
  proof (cases "st = SERVER_STATUS_RUNNING E")
    case False
    with Inr show ?thesis using that(2,3) by blast
  next
    case True
    show ?thesis
    proof (cases "g_context s")
      case (Some c)
      with Inr True show ?thesis using that(4) by blast
    next
      case None
      with Inr True show ?thesis using that(5,6) by (cases "in_params inp") blast+
    qed
  qed
qed

lemma iter_state_if [simp]: "iter_state ((if b then Continue else Crash) x) = x"
  by simp

text \<open>With neither \<^verbatim>\<open>_CUDA\<close> nor \<^verbatim>\<open>_CPU\<close> defined the poll that fetched ends on the null handle.\<close>

lemma pollIter_no_backend:
  assumes "in_status inp = Inr st" and "st = SERVER_STATUS_RUNNING E" and "g_context s = None"
    and "in_params inp = Inr m" and "\<not> def_CUDA E" and "\<not> def_CPU E"
  shows "\<exists>s'. pollIter E inp s = Crash s' \<and> g_context s' = None"
  using assms by (simp add: pollIter_fetched)

text \<open>What no poll touches, and what no poll touches once the engine exists.\<close>

lemma pollIter_frame:
  "g_running (iter_state (pollIter E inp s)) = g_running s \<and>
   g_pointsCache (iter_state (pollIter E inp s)) = g_pointsCache s \<and>
   g_id (iter_state (pollIter E inp s)) = g_id s \<and>
   g_config (iter_state (pollIter E inp s)) = g_config s \<and>
   g_serverConnection (iter_state (pollIter E inp s)) = g_serverConnection s"
proof (cases rule: pollIter_cases [where inp = inp and E = E and s = s])
  case (failure e)
  then show ?thesis by (simp add: pollIter_transport_failure)
next
  case (other st)
  then show ?thesis by (simp add: pollIter_other)
next
  case (stopped st)
  then show ?thesis by (simp add: pollIter_stopped)
next
  case (engine st c)
  then show ?thesis by (simp add: pollIter_engine_exists)
next
  case (fetch_failed st e)
  then show ?thesis by (simp add: pollIter_fetch_failed)
next
  case (fetched st m)
  then show ?thesis by (simp add: pollIter_fetched)
qed



text \<open>
  C7. A poll whose \<^verbatim>\<open>getStatus\<close> call throws logs the error and the retry notice,
  sleeps 60 seconds and goes on: it touches no variable of the program (no engine is
  created, stopped or relaunched, nothing is fetched), the loop does not exit, and the
  loop continues with the next poll from the same globals.
\<close>

theorem transport_failure_retries:
  "in_status inp = Inl e \<longrightarrow>
     pollIter E inp s =
       Continue (emits [LogInfo ''Connecting to server...'' [], GetStatus (g_id s),
                        LogInfo ''Connection error: %s\<newline>'' [ArgStr e],
                        LogInfo ''Retrying in 60 seconds...\<newline>'' [],
                        Sleep 60] s) \<and>
     filter is_engine_event (new_events s (iter_state (pollIter E inp s))) = [] \<and>
     g_context (iter_state (pollIter E inp s)) = g_context s \<and>
     g_params (iter_state (pollIter E inp s)) = g_params s \<and>
     g_rx (iter_state (pollIter E inp s)) = g_rx s \<and>
     g_ry (iter_state (pollIter E inp s)) = g_ry s \<and>
     g_running (iter_state (pollIter E inp s)) = g_running s \<and>
     (g_running s \<longrightarrow>
        pollLoop E (inp # rest) s =
          pollLoop E rest
            (emits [LogInfo ''Connecting to server...'' [], GetStatus (g_id s),
                    LogInfo ''Connection error: %s\<newline>'' [ArgStr e],
                    LogInfo ''Retrying in 60 seconds...\<newline>'' [],
                    Sleep 60] s))"
  by (simp add: pollIter_transport_failure)

theorem transport_failure_retries_witness:
  "pollLoop sample_env [poll_with (Inl ''refused''), poll_with (Inr 1)] (sample_state []) =
     Returned (emits [LogInfo ''Connecting to server...'' [], GetStatus ''p1'',
                      LogInfo ''Connection error: %s\<newline>'' [ArgStr ''refused''],
                      LogInfo ''Retrying in 60 seconds...\<newline>'' [],
                      Sleep 60,
                      LogInfo ''Connecting to server...'' [], GetStatus ''p1'',
                      LogInfo ''Status = %d\<newline>'' [ArgNum 1],
                      LogInfo ''Stopping'' []] (sample_state []))"
proof -
  have h: "in_status (poll_with (Inl ''refused'')) = Inl ''refused''"
    by (simp add: poll_with_def)
  have r: "g_running (sample_state [])"
    by (simp add: sample_state_def)
  have "pollLoop sample_env (poll_with (Inl ''refused'') # [poll_with (Inr 1)]) (sample_state []) =
          pollLoop sample_env [poll_with (Inr 1)]
            (emits [LogInfo ''Connecting to server...'' [], GetStatus (g_id (sample_state [])),
                    LogInfo ''Connection error: %s\<newline>'' [ArgStr ''refused''],
                    LogInfo ''Retrying in 60 seconds...\<newline>'' [],
                    Sleep 60] (sample_state []))"
    using transport_failure_retries [of "poll_with (Inl ''refused'')" "''refused''" sample_env
        "sample_state []" "[poll_with (Inr 1)]"] h r
    by blast
  moreover have "in_status (poll_with (Inr 1)) = Inr 1" "(1::uint) \<noteq> SERVER_STATUS_RUNNING sample_env"
    "1 = SERVER_STATUS_STOPPED sample_env"
    by (simp_all add: poll_with_def sample_env_def)
  ultimately show ?thesis
    by (simp add: pollIter_stopped emits_emits) (simp add: sample_state_def)
qed

text \<open>The launch: what the poll that fetches the parameters and starts the engine leaves.\<close>

lemma pollIter_launch:
  assumes "in_status inp = Inr st" and "st = SERVER_STATUS_RUNNING E" and "g_context s = None"
    and "in_params inp = Inr m" and "def_CUDA E \<or> def_CPU E"
  shows "\<exists>s'. pollIter E inp s = Continue s' \<and> g_context s' \<noteq> None \<and>
           count_list (new_events s s') ContextInit = 1 \<and>
           count_list (new_events s s') (ThreadStart RunningThread) = 1 \<and>
           filter is_fetch (new_events s s') = [GetParameters (g_id s)] \<and>
           g_params s' = \<lparr>prm_p = msg_p m, prm_n = msg_n m, prm_a = msg_a m, prm_b = msg_b m,
                      prm_gx = msg_gx m, prm_gy = msg_gy m, prm_qx = msg_qx m,
                      prm_qy = msg_qy m, prm_dBits = msg_dBits m\<rparr> \<and>
           (g_rx s', g_ry s') = copyRPoints m 0 (g_rx s, g_ry s)"
  using assms by (auto simp add: pollIter_fetched new_events_def)

text \<open>
  C5. One poll, by the status it meets. \<^verbatim>\<open>RUNNING\<close> with no engine, a fetch that
  succeeds and a backend compiled in: exactly one \<^verbatim>\<open>init\<close> and one launch of \<^verbatim>\<open>run\<close>,
  and the engine handle is set. \<^verbatim>\<open>RUNNING\<close> with an engine that reports it is running:
  only the liveness query, no engine is constructed, initialised, launched or stopped.
  \<^verbatim>\<open>STOPPED\<close>: one \<^verbatim>\<open>stop\<close> call if an engine exists and none otherwise, and the loop
  returns. Any other status: the poll only logs and sleeps, no variable changes, and the
  loop goes on with the next poll.
\<close>

theorem poll_state_machine:
  "(in_status inp = Inr (SERVER_STATUS_RUNNING E) \<and> g_context s = None \<and>
      in_params inp = Inr m \<and> (def_CUDA E \<or> def_CPU E) \<longrightarrow>
      (\<exists>s'. pollIter E inp s = Continue s' \<and> g_context s' \<noteq> None \<and>
            count_list (new_events s s') ContextInit = 1 \<and>
            count_list (new_events s s') (ThreadStart RunningThread) = 1)) \<and>
   (in_status inp = Inr (SERVER_STATUS_RUNNING E) \<and> g_context s \<noteq> None \<and> in_isRunning inp \<longrightarrow>
      pollIter E inp s =
        Continue (emits [LogInfo ''Connecting to server...'' [], GetStatus (g_id s),
                         LogInfo ''Status = %d\<newline>'' [ArgNum (uint (SERVER_STATUS_RUNNING E))],
                         ContextIsRunning, Sleep 300] s) \<and>
      filter is_engine_event (new_events s (iter_state (pollIter E inp s))) = []) \<and>
   (in_status inp = Inr (SERVER_STATUS_STOPPED E) \<and>
      SERVER_STATUS_STOPPED E \<noteq> SERVER_STATUS_RUNNING E \<longrightarrow>
      (\<exists>s'. pollIter E inp s = Break s' \<and>
            count_list (new_events s s') ContextStop = (if g_context s \<noteq> None then 1 else 0) \<and>
            (g_running s \<longrightarrow> pollLoop E (inp # rest) s = Returned s'))) \<and>
   (in_status inp = Inr st \<and> st \<noteq> SERVER_STATUS_RUNNING E \<and> st \<noteq> SERVER_STATUS_STOPPED E \<longrightarrow>
      pollIter E inp s =
        Continue (emits [LogInfo ''Connecting to server...'' [], GetStatus (g_id s),
                         LogInfo ''Status = %d\<newline>'' [ArgNum (uint st)], Sleep 300] s) \<and>
      (g_running s \<longrightarrow>
         pollLoop E (inp # rest) s =
           pollLoop E rest
             (emits [LogInfo ''Connecting to server...'' [], GetStatus (g_id s),
                     LogInfo ''Status = %d\<newline>'' [ArgNum (uint st)], Sleep 300] s)))"
proof (intro conjI impI)
  assume a: "in_status inp = Inr (SERVER_STATUS_RUNNING E) \<and> g_context s = None \<and>
      in_params inp = Inr m \<and> (def_CUDA E \<or> def_CPU E)"
  then show "\<exists>s'. pollIter E inp s = Continue s' \<and> g_context s' \<noteq> None \<and>
            count_list (new_events s s') ContextInit = 1 \<and>
            count_list (new_events s s') (ThreadStart RunningThread) = 1"
    using pollIter_launch [of inp "SERVER_STATUS_RUNNING E" E s m] by blast
next
  assume a: "in_status inp = Inr (SERVER_STATUS_RUNNING E) \<and> g_context s \<noteq> None \<and> in_isRunning inp"
  then obtain c where c: "g_context s = Some c" by blast
  show "pollIter E inp s =
        Continue (emits [LogInfo ''Connecting to server...'' [], GetStatus (g_id s),
                         LogInfo ''Status = %d\<newline>'' [ArgNum (uint (SERVER_STATUS_RUNNING E))],
                         ContextIsRunning, Sleep 300] s)"
    using a c by (simp add: pollIter_engine_exists)
  then show "filter is_engine_event (new_events s (iter_state (pollIter E inp s))) = []"
    by simp
next
  assume a: "in_status inp = Inr (SERVER_STATUS_STOPPED E) \<and>
      SERVER_STATUS_STOPPED E \<noteq> SERVER_STATUS_RUNNING E"
  then have "pollIter E inp s =
     Break (emits ([LogInfo ''Connecting to server...'' [], GetStatus (g_id s),
                    LogInfo ''Status = %d\<newline>'' [ArgNum (uint (SERVER_STATUS_STOPPED E))],
                    LogInfo ''Stopping'' []] @
                   (if g_context s \<noteq> None then [ContextStop, ContextDelete] else [])) s)"
    by (simp add: pollIter_stopped)
  then show "\<exists>s'. pollIter E inp s = Break s' \<and>
            count_list (new_events s s') ContextStop = (if g_context s \<noteq> None then 1 else 0) \<and>
            (g_running s \<longrightarrow> pollLoop E (inp # rest) s = Returned s')"
    by simp
next
  assume a: "in_status inp = Inr st \<and> st \<noteq> SERVER_STATUS_RUNNING E \<and> st \<noteq> SERVER_STATUS_STOPPED E"
  then show b: "pollIter E inp s =
        Continue (emits [LogInfo ''Connecting to server...'' [], GetStatus (g_id s),
                         LogInfo ''Status = %d\<newline>'' [ArgNum (uint st)], Sleep 300] s)"
    by (simp add: pollIter_other)
  assume "g_running s"
  with b show "pollLoop E (inp # rest) s =
           pollLoop E rest
             (emits [LogInfo ''Connecting to server...'' [], GetStatus (g_id s),
                     LogInfo ''Status = %d\<newline>'' [ArgNum (uint st)], Sleep 300] s)"
    by simp
qed


theorem poll_state_machine_witness:
  "(\<exists>s'. pollIter sample_env (poll_with (Inr 0)) (sample_state []) = Continue s' \<and>
         g_context s' \<noteq> None \<and>
         count_list (new_events (sample_state []) s') ContextInit = 1 \<and>
         count_list (new_events (sample_state []) s') (ThreadStart RunningThread) = 1) \<and>
   pollIter sample_env (poll_with (Inr 0)) (sample_engine_state []) =
     Continue (emits [LogInfo ''Connecting to server...'' [], GetStatus ''p1'',
                      LogInfo ''Status = %d\<newline>'' [ArgNum 0],
                      ContextIsRunning, Sleep 300] (sample_engine_state [])) \<and>
   (\<exists>s'. pollIter sample_env (poll_with (Inr 1)) (sample_engine_state []) = Break s' \<and>
         count_list (new_events (sample_engine_state []) s') ContextStop = 1 \<and>
         pollLoop sample_env [poll_with (Inr 1), poll_with (Inr 0)] (sample_engine_state []) =
           Returned s') \<and>
   pollIter sample_env (poll_with (Inr 7)) (sample_state []) =
     Continue (emits [LogInfo ''Connecting to server...'' [], GetStatus ''p1'',
                      LogInfo ''Status = %d\<newline>'' [ArgNum 7], Sleep 300] (sample_state []))"
proof -
  have run: "in_status (poll_with (Inr 0)) = Inr (SERVER_STATUS_RUNNING sample_env)"
    and stop: "in_status (poll_with (Inr 1)) = Inr (SERVER_STATUS_STOPPED sample_env)"
    and other: "in_status (poll_with (Inr 7)) = Inr 7"
    and live: "in_isRunning (poll_with (Inr 0))"
    and msg: "in_params (poll_with (Inr 0)) = Inr sample_msg"
    and distinct: "SERVER_STATUS_STOPPED sample_env \<noteq> SERVER_STATUS_RUNNING sample_env"
      "(7::uint) \<noteq> SERVER_STATUS_RUNNING sample_env" "(7::uint) \<noteq> SERVER_STATUS_STOPPED sample_env"
    and backend: "def_CUDA sample_env \<or> def_CPU sample_env"
    by (simp_all add: poll_with_def sample_env_def)
  have noeng: "g_context (sample_state []) = None"
    and eng: "g_context (sample_engine_state []) \<noteq> None"
    and running: "g_running (sample_engine_state [])"
    and ident: "g_id (sample_state []) = ''p1''" "g_id (sample_engine_state []) = ''p1''"
    by (simp_all add: sample_state_def sample_engine_state_def)
  have first: "\<exists>s'. pollIter sample_env (poll_with (Inr 0)) (sample_state []) = Continue s' \<and>
         g_context s' \<noteq> None \<and>
         count_list (new_events (sample_state []) s') ContextInit = 1 \<and>
         count_list (new_events (sample_state []) s') (ThreadStart RunningThread) = 1"
    using poll_state_machine [of "poll_with (Inr 0)" sample_env "sample_state []" sample_msg]
      run noeng msg backend by blast
  have second: "pollIter sample_env (poll_with (Inr 0)) (sample_engine_state []) =
     Continue (emits [LogInfo ''Connecting to server...'' [], GetStatus (g_id (sample_engine_state [])),
                      LogInfo ''Status = %d\<newline>'' [ArgNum (uint (SERVER_STATUS_RUNNING sample_env))],
                      ContextIsRunning, Sleep 300] (sample_engine_state []))"
    using poll_state_machine [of "poll_with (Inr 0)" sample_env "sample_engine_state []"]
      run eng live by blast
  have third: "\<exists>s'. pollIter sample_env (poll_with (Inr 1)) (sample_engine_state []) = Break s' \<and>
         count_list (new_events (sample_engine_state []) s') ContextStop =
           (if g_context (sample_engine_state []) \<noteq> None then 1 else 0) \<and>
         (g_running (sample_engine_state []) \<longrightarrow>
          pollLoop sample_env (poll_with (Inr 1) # [poll_with (Inr 0)]) (sample_engine_state []) =
           Returned s')"
    using poll_state_machine [of "poll_with (Inr 1)" sample_env "sample_engine_state []" _ 
        "[poll_with (Inr 0)]"]
      stop distinct by blast
  have fourth: "pollIter sample_env (poll_with (Inr 7)) (sample_state []) =
     Continue (emits [LogInfo ''Connecting to server...'' [], GetStatus (g_id (sample_state [])),
                      LogInfo ''Status = %d\<newline>'' [ArgNum (uint (7::uint))], Sleep 300]
                 (sample_state []))"
    using poll_state_machine [of "poll_with (Inr 7)" sample_env "sample_state []" _ _ 7]
      other distinct by blast
  from first second third fourth show ?thesis
    using eng running ident by (simp add: sample_env_def)
qed

subsection \<open>Whole runs of the poll loop\<close>

lemma pollLoop_frame:
  "g_running (loop_state (pollLoop E polls s)) = g_running s \<and>
   g_pointsCache (loop_state (pollLoop E polls s)) = g_pointsCache s \<and>
   g_id (loop_state (pollLoop E polls s)) = g_id s \<and>
   g_config (loop_state (pollLoop E polls s)) = g_config s \<and>
   g_serverConnection (loop_state (pollLoop E polls s)) = g_serverConnection s"
proof (induction polls arbitrary: s)
  case Nil
  show ?case by simp
next
  case (Cons inp rest)
  show ?case
  proof (cases "g_running s")
    case False
    then show ?thesis by simp
  next
    case True
    show ?thesis
    proof (cases "pollIter E inp s")
      case (Continue s')
      with True have "pollLoop E (inp # rest) s = pollLoop E rest s'" by simp
      moreover have "iter_state (pollIter E inp s) = s'" using Continue by simp
      ultimately show ?thesis
        using Cons.IH [of s'] pollIter_frame [of E inp s] by simp
    next
      case (Break s')
      with True have "loop_state (pollLoop E (inp # rest) s) = iter_state (pollIter E inp s)" by simp
      then show ?thesis using pollIter_frame [of E inp s] by simp
    next
      case (Crash s')
      with True have "loop_state (pollLoop E (inp # rest) s) = iter_state (pollIter E inp s)" by simp
      then show ?thesis using pollIter_frame [of E inp s] by simp
    qed
  qed
qed











subsection \<open>The running flag\<close>

text \<open>No pass of the pump, of the poll loop or of the callback assigns \<^verbatim>\<open>_running\<close>.\<close>

lemma sendPointsIter_frame:
  assumes "sendPointsIter r s = Some s'"
  shows "g_running s' = g_running s \<and> g_context s' = g_context s \<and>
         g_params s' = g_params s \<and> g_rx s' = g_rx s \<and> g_ry s' = g_ry s \<and>
         g_id s' = g_id s \<and> g_config s' = g_config s \<and>
         g_serverConnection s' = g_serverConnection s"
  using assms
  by (cases r)
     (auto simp add: sendPointsIter_def emit_def Let_def split: if_splits option.splits)

lemma pointFoundCallback_frame:
  "g_running (pointFoundCallback E p s) = g_running s \<and>
   g_context (pointFoundCallback E p s) = g_context s \<and>
   g_params (pointFoundCallback E p s) = g_params s \<and>
   g_config (pointFoundCallback E p s) = g_config s \<and>
   g_id (pointFoundCallback E p s) = g_id s"
  by (simp add: pointFoundCallback_def addPointToCache_def emit_def Let_def)

lemma step_running: "step E s s' \<Longrightarrow> g_running s' = g_running s"
proof (induction rule: step.induct)
  case (poll s inp s')
  then show ?case using pollIter_frame [of E inp s] by simp
next
  case (pump s r s')
  then show ?case using sendPointsIter_frame by blast
next
  case (engine p s s')
  then show ?case using pointFoundCallback_frame [of E p s] by simp
qed

lemma reachable_running: "reachable E s0 s \<Longrightarrow> g_running s = g_running s0"
  by (induction rule: reachable.induct) (simp_all add: step_running)

lemma pump_keeps_looping:
  "g_running s \<Longrightarrow> sendPointsThread rs s \<noteq> PumpReturned t"
proof (induction rs arbitrary: s)
  case Nil
  then show ?case by simp
next
  case (Cons r rs)
  show ?case
  proof (cases "sendPointsIter r s")
    case None
    with Cons.prems show ?thesis by simp
  next
    case (Some s')
    then have "g_running s'" using sendPointsIter_frame Cons.prems by blast
    then have "sendPointsThread rs s' \<noteq> PumpReturned t" by (rule Cons.IH)
    with Some Cons.prems show ?thesis by simp
  qed
qed

subsection \<open>Start-up\<close>

text \<open>The three ways \<^verbatim>\<open>cudaInit\<close> goes.\<close>

lemma cudaInit_no_devices:
  "in_deviceCount I = 0 \<Longrightarrow>
   cudaInit I s = (False, emits [CudaGetDeviceCount,
                                 LogError ''No CUDA devices detected\<newline>'' []] s)"
  by (simp add: cudaInit_def emit_emits emits_emits Let_def)

lemma cudaInit_info_error:
  "in_deviceCount I \<noteq> 0 \<Longrightarrow> in_deviceInfo I = Inl err \<Longrightarrow>
   cudaInit I s =
     (False, emits [CudaGetDeviceCount, CudaGetDeviceInfo (cfg_device (g_config s)),
                    LogError ''Error getting info for device %d: %s\<newline>''
                      [ArgNum (cfg_device (g_config s)), ArgCudaError err]] s)"
  by (simp add: cudaInit_def emit_emits emits_emits Let_def)

lemma cudaInit_ok:
  "in_deviceCount I \<noteq> 0 \<Longrightarrow> in_deviceInfo I = Inr d \<Longrightarrow>
   cudaInit I s =
     (True, emits [CudaGetDeviceCount, CudaGetDeviceInfo (cfg_device (g_config s)),
                   LogInfo ''Device info:'' [],
                   LogInfo ''Name:     %s'' [ArgStr (dev_name d)],
                   LogInfo ''version:  %d.%d'' [ArgNum (dev_major d), ArgNum (dev_minor d)],
                   LogInfo ''MP count: %d'' [ArgNum (dev_mpCount d)],
                   LogInfo ''Cores:    %d'' [ArgNum (int_mult (dev_mpCount d) (dev_cores d))],
                   LogInfo ''Memory:   %lldMB'' [ArgNum (int (dev_globalMemory d div 1048576))],
                   LogInfo [] []] s)"
  by (simp add: cudaInit_def emit_emits emits_emits Let_def)

lemma cudaInit_cases [case_names no_devices info_error ok]:
  obtains "in_deviceCount I = 0"
  | err where "in_deviceCount I \<noteq> 0" and "in_deviceInfo I = Inl err"
  | d where "in_deviceCount I \<noteq> 0" and "in_deviceInfo I = Inr d"
  by (cases "in_deviceInfo I") blast+

lemma cudaInit_state:
  "\<exists>es. snd (cudaInit I s) = emits es s \<and> filter is_server_event es = [] \<and>
        filter is_engine_event es = [] \<and> DoBenchmark \<notin> set es \<and>
        ThreadStart SendPointsThread \<notin> set es"
proof (cases rule: cudaInit_cases [where I = I])
  case no_devices
  then have "snd (cudaInit I s) =
      emits [CudaGetDeviceCount, LogError ''No CUDA devices detected\<newline>'' []] s"
    by (simp add: cudaInit_no_devices)
  moreover have "filter is_server_event
      [CudaGetDeviceCount, LogError ''No CUDA devices detected\<newline>'' []] = []"
    "filter is_engine_event
      [CudaGetDeviceCount, LogError ''No CUDA devices detected\<newline>'' []] = []"
    "DoBenchmark \<notin> set [CudaGetDeviceCount, LogError ''No CUDA devices detected\<newline>'' []]"
    "ThreadStart SendPointsThread \<notin>
       set [CudaGetDeviceCount, LogError ''No CUDA devices detected\<newline>'' []]"
    by simp_all
  ultimately show ?thesis by blast
next
  case (info_error err)
  let ?es = "[CudaGetDeviceCount, CudaGetDeviceInfo (cfg_device (g_config s)),
                    LogError ''Error getting info for device %d: %s\<newline>''
                      [ArgNum (cfg_device (g_config s)), ArgCudaError err]]"
  have "snd (cudaInit I s) = emits ?es s"
    using info_error by (simp add: cudaInit_info_error)
  moreover have "filter is_server_event ?es = []" "filter is_engine_event ?es = []"
    "DoBenchmark \<notin> set ?es" "ThreadStart SendPointsThread \<notin> set ?es"
    by simp_all
  ultimately show ?thesis by blast
next
  case (ok d)
  let ?es = "[CudaGetDeviceCount, CudaGetDeviceInfo (cfg_device (g_config s)),
                   LogInfo ''Device info:'' [],
                   LogInfo ''Name:     %s'' [ArgStr (dev_name d)],
                   LogInfo ''version:  %d.%d'' [ArgNum (dev_major d), ArgNum (dev_minor d)],
                   LogInfo ''MP count: %d'' [ArgNum (dev_mpCount d)],
                   LogInfo ''Cores:    %d'' [ArgNum (int_mult (dev_mpCount d) (dev_cores d))],
                   LogInfo ''Memory:   %lldMB'' [ArgNum (int (dev_globalMemory d div 1048576))],
                   LogInfo [] []]"
  have "snd (cudaInit I s) = emits ?es s"
    using ok by (simp add: cudaInit_ok)
  moreover have "filter is_server_event ?es = []" "filter is_engine_event ?es = []"
    "DoBenchmark \<notin> set ?es" "ThreadStart SendPointsThread \<notin> set ?es"
    by simp_all
  ultimately show ?thesis by blast
qed

lemma cudaInit_result:
  "fst (cudaInit I s) \<longleftrightarrow> in_deviceCount I \<noteq> 0 \<and> (\<exists>d. in_deviceInfo I = Inr d)"
proof (cases rule: cudaInit_cases [where I = I])
  case no_devices
  then show ?thesis by (simp add: cudaInit_no_devices)
next
  case (info_error err)
  then show ?thesis by (simp add: cudaInit_info_error)
next
  case (ok d)
  then show ?thesis by (simp add: cudaInit_ok)
qed

text \<open>\<^verbatim>\<open>main\<close> never clears the flag.\<close>

lemma pollConnections_running: "g_running (loop_state (pollConnections E polls s))"
  using pollLoop_frame [of E polls "emit (ThreadStart SendPointsThread) (s\<lparr>g_running := True\<rparr>)"]
  by (simp add: pollConnections_def Let_def emit_def)

lemma enterEventLoop_running:
  "g_running s \<Longrightarrow> g_running (loop_state (enterEventLoop E I s))"
  by (cases "in_connect I")
     (simp_all add: enterEventLoop_def Let_def emit_emits pollConnections_running)

lemma main_running:
  assumes "g_running s"
  shows "g_running (proc_state (main E I argv s))"
proof (cases "in_loadConfig I")
  case (Inl err)
  with assms show ?thesis by (simp add: main_def emit_emits emits_emits Let_def)
next
  case (Inr cfg)
  let ?s3 = "(emit (LoadConfig ''settings.json'') (emit Srand s))\<lparr>g_config := cfg\<rparr>"
  obtain ok s4 where c: "(if def_CUDA E then cudaInit I ?s3 else (True, ?s3)) = (ok, s4)"
    by (cases "if def_CUDA E then cudaInit I ?s3 else (True, ?s3)") blast
  have "\<exists>es. s4 = emits es ?s3"
  proof (cases "def_CUDA E")
    case True
    with c have "s4 = snd (cudaInit I ?s3)" by simp
    then show ?thesis using cudaInit_state [of I ?s3] by auto
  next
    case False
    with c have "s4 = emits [] ?s3" by (simp add: emits_def)
    then show ?thesis by blast
  qed
  then have r4: "g_running s4" using assms by (auto simp add: emit_def)
  have m: "main E I argv s =
     (if \<not> ok then Exited 1 s4
      else if length argv \<ge> 2 \<and> argv ! 1 = ''-b'' then Exited 0 (emit DoBenchmark s4)
      else if length argv < 2 then
        Exited 0 (emit (LogInfo ''usage: [options] id\<newline>'' []) s4)
      else
        (case enterEventLoop E I (s4\<lparr>g_id := argv ! 1\<rparr>) of
           Returned s' \<Rightarrow> Exited 0 s'
         | Pending s' \<Rightarrow> StillRunning s'
         | Crashed s' \<Rightarrow> Died s'))"
    using Inr c by (simp add: main_def Let_def split del: if_split)
  have "g_running (loop_state (enterEventLoop E I (s4\<lparr>g_id := argv ! 1\<rparr>)))"
    using r4 by (simp add: enterEventLoop_running)
  then have "g_running (proc_state (case enterEventLoop E I (s4\<lparr>g_id := argv ! 1\<rparr>) of
           Returned s' \<Rightarrow> Exited 0 s'
         | Pending s' \<Rightarrow> StillRunning s'
         | Crashed s' \<Rightarrow> Died s'))"
    by (cases "enterEventLoop E I (s4\<lparr>g_id := argv ! 1\<rparr>)") simp_all
  then show ?thesis
    using m r4 by (simp add: emit_emits)
qed

subsection \<open>The running flag and the pump\<close>

text \<open>The pump alone never grows the cache, so a pump started on a cache that fits keeps looping.\<close>

lemma sendPointsIter_cache_le:
  assumes "sendPointsIter r s = Some s'"
  shows "length (g_pointsCache s') \<le> length (g_pointsCache s)"
  using assms
  by (cases r)
     (auto simp add: sendPointsIter_def emit_def Let_def split: if_splits option.splits)

lemma pump_loops:
  "g_running s \<Longrightarrow> int (length (g_pointsCache s)) \<le> INT_MAX \<Longrightarrow>
   \<exists>t. sendPointsThread rs s = PumpLooping t"
proof (induction rs arbitrary: s)
  case Nil
  then show ?case by simp
next
  case (Cons r rs)
  obtain s' where s': "sendPointsIter r s = Some s'"
    using sendPointsIter_defined [OF Cons.prems(2)] by blast
  have "g_running s'" using sendPointsIter_frame [OF s'] Cons.prems by simp
  moreover have "int (length (g_pointsCache s')) \<le> INT_MAX"
    using sendPointsIter_cache_le [OF s'] Cons.prems by linarith
  ultimately obtain t where "sendPointsThread rs s' = PumpLooping t"
    using Cons.IH by blast
  with s' Cons.prems show ?case by simp
qed

text \<open>
  C8. \<^verbatim>\<open>_running\<close> is true in the initial globals; \<^verbatim>\<open>pollConnections\<close> assigns true on
  entry, before it starts the pump; in whatever way \<^verbatim>\<open>main\<close> ends the flag is still true;
  and no pass of the poll loop, of the pump or of the callback changes it. So in every
  state reached from one where the flag is true the flag is true, and a pump running
  from there never returns, however many passes it makes: it is still looping (always
  so when the cache holds at most \<^verbatim>\<open>INT_MAX\<close> points).
\<close>

theorem running_flag_never_cleared:
  "g_running (startup cfg prm rx ry) \<and>
   pollConnections E [] s = Pending (emit (ThreadStart SendPointsThread) (s\<lparr>g_running := True\<rparr>)) \<and>
   g_running (loop_state (pollConnections E polls s)) \<and>
   g_running (proc_state (main E I argv (startup cfg prm rx ry))) \<and>
   (step E s s' \<longrightarrow> g_running s' = g_running s) \<and>
   (g_running s0 \<and> reachable E s0 s \<longrightarrow>
      g_running s \<and>
      (\<forall>rs t. sendPointsThread rs s \<noteq> PumpReturned t) \<and>
      (\<forall>rs. int (length (g_pointsCache s)) \<le> INT_MAX \<longrightarrow>
            (\<exists>t. sendPointsThread rs s = PumpLooping t)))"
proof (intro conjI impI allI)
  show init: "g_running (startup cfg prm rx ry)"
    by (simp add: startup_def)
  show "pollConnections E [] s =
      Pending (emit (ThreadStart SendPointsThread) (s\<lparr>g_running := True\<rparr>))"
    by (simp add: pollConnections_def Let_def emit_def)
  show "g_running (loop_state (pollConnections E polls s))"
    by (rule pollConnections_running)
  show "g_running (proc_state (main E I argv (startup cfg prm rx ry)))"
    using init by (rule main_running)
next
  assume "step E s s'"
  then show "g_running s' = g_running s" by (rule step_running)
next
  assume a: "g_running s0 \<and> reachable E s0 s"
  then show r: "g_running s" using reachable_running by blast
  show "sendPointsThread rs s \<noteq> PumpReturned t" for rs t
    using r by (rule pump_keeps_looping)
  show "\<exists>t. sendPointsThread rs s = PumpLooping t"
    if "int (length (g_pointsCache s)) \<le> INT_MAX" for rs
    using r that by (rule pump_loops)
qed

theorem running_flag_never_cleared_witness:
  "step sample_env (sample_engine_state [dp1])
     (pointFoundCallback sample_env cand_on (sample_engine_state [dp1])) \<and>
   g_running (sample_engine_state [dp1]) \<and>
   reachable sample_env (sample_engine_state [dp1])
     (pointFoundCallback sample_env cand_on (sample_engine_state [dp1])) \<and>
   g_running (pointFoundCallback sample_env cand_on (sample_engine_state [dp1])) \<and>
   (\<exists>t. sendPointsThread [Inr (), Inl ''timeout'']
          (pointFoundCallback sample_env cand_on (sample_engine_state [dp1])) = PumpLooping t)"
proof -
  let ?s = "sample_engine_state [dp1]"
  let ?s' = "pointFoundCallback sample_env cand_on ?s"
  have st: "step sample_env ?s ?s'"
    by (rule step.engine) simp
  have re: "reachable sample_env ?s ?s'"
    using reachable.reach_start st by (rule reachable.reach_step)
  have r0: "g_running ?s"
    by (simp add: sample_engine_state_def sample_state_def)
  have small: "int (length (g_pointsCache ?s')) \<le> INT_MAX"
    by (simp add: pointFoundCallback_def addPointToCache_def emit_def Let_def INT_MAX_def
        sample_engine_state_def sample_state_def)
  have "g_running ?s' = g_running ?s"
    using running_flag_never_cleared [of _ _ _ _ sample_env ?s _ _ _ ?s'] st by blast
  moreover have "\<exists>t. sendPointsThread [Inr (), Inl ''timeout''] ?s' = PumpLooping t"
    using running_flag_never_cleared [of _ _ _ _ sample_env ?s' _ _ _ _ ?s] r0 re small by blast
  ultimately show ?thesis using st re r0 by simp
qed

subsection \<open>How the process ends before the event loop\<close>

text \<open>How \<^verbatim>\<open>main\<close> ends, by what loading the configuration and the device check give.\<close>

lemma main_bad_config:
  "in_loadConfig I = Inl err \<Longrightarrow>
   main E I argv s =
     Exited 1 (emits [Srand, LoadConfig ''settings.json'',
                      LogError (''Error loading settings: '' @ err) []] s)"
  by (simp add: main_def emit_emits emits_emits Let_def)

lemma main_config_ok:
  assumes "in_loadConfig I = Inr cfg"
  obtains ok es where
    "ok \<longleftrightarrow> (def_CUDA E \<longrightarrow> in_deviceCount I \<noteq> 0 \<and> (\<exists>d. in_deviceInfo I = Inr d))"
    and "filter is_server_event es = []" and "filter is_engine_event es = []"
    and "DoBenchmark \<notin> set es" and "ThreadStart SendPointsThread \<notin> set es"
    and "main E I argv s =
     (if \<not> ok then
        Exited 1 ((emits ([Srand, LoadConfig ''settings.json''] @ es) s)\<lparr>g_config := cfg\<rparr>)
      else if length argv \<ge> 2 \<and> argv ! 1 = ''-b'' then
        Exited 0 ((emits ([Srand, LoadConfig ''settings.json''] @ es @ [DoBenchmark]) s)
                    \<lparr>g_config := cfg\<rparr>)
      else if length argv < 2 then
        Exited 0 ((emits ([Srand, LoadConfig ''settings.json''] @ es @
                          [LogInfo ''usage: [options] id\<newline>'' []]) s)\<lparr>g_config := cfg\<rparr>)
      else
        (case enterEventLoop E I
                ((emits ([Srand, LoadConfig ''settings.json''] @ es) s)
                   \<lparr>g_config := cfg, g_id := argv ! 1\<rparr>) of
           Returned s' \<Rightarrow> Exited 0 s'
         | Pending s' \<Rightarrow> StillRunning s'
         | Crashed s' \<Rightarrow> Died s'))"
proof -
  let ?s3 = "(emit (LoadConfig ''settings.json'') (emit Srand s))\<lparr>g_config := cfg\<rparr>"
  obtain ok s4 where c: "(if def_CUDA E then cudaInit I ?s3 else (True, ?s3)) = (ok, s4)"
    by (cases "if def_CUDA E then cudaInit I ?s3 else (True, ?s3)") blast
  have s3: "?s3 = (emits [Srand, LoadConfig ''settings.json''] s)\<lparr>g_config := cfg\<rparr>"
    by (simp add: emit_emits emits_emits)
  have "\<exists>es. s4 = emits es ?s3 \<and> filter is_server_event es = [] \<and>
        filter is_engine_event es = [] \<and> DoBenchmark \<notin> set es \<and>
        ThreadStart SendPointsThread \<notin> set es"
  proof (cases "def_CUDA E")
    case True
    with c have "s4 = snd (cudaInit I ?s3)" by simp
    then show ?thesis using cudaInit_state [of I ?s3] by auto
  next
    case False
    with c have "s4 = emits [] ?s3" by (simp add: emits_def)
    then show ?thesis by force
  qed
  then obtain es where es: "s4 = emits es ?s3" "filter is_server_event es = []"
        "filter is_engine_event es = []" "DoBenchmark \<notin> set es"
        "ThreadStart SendPointsThread \<notin> set es"
    by blast
  have s4: "s4 = (emits ([Srand, LoadConfig ''settings.json''] @ es) s)\<lparr>g_config := cfg\<rparr>"
    using es(1) s3 by (simp add: emits_upd emits_emits)
  have ok: "ok \<longleftrightarrow> (def_CUDA E \<longrightarrow> in_deviceCount I \<noteq> 0 \<and> (\<exists>d. in_deviceInfo I = Inr d))"
  proof (cases "def_CUDA E")
    case True
    with c have "ok = fst (cudaInit I ?s3)" by simp
    with True show ?thesis by (simp add: cudaInit_result)
  next
    case False
    with c show ?thesis by simp
  qed
  have m: "main E I argv s =
     (if \<not> ok then Exited 1 s4
      else if length argv \<ge> 2 \<and> argv ! 1 = ''-b'' then Exited 0 (emit DoBenchmark s4)
      else if length argv < 2 then
        Exited 0 (emit (LogInfo ''usage: [options] id\<newline>'' []) s4)
      else
        (case enterEventLoop E I (s4\<lparr>g_id := argv ! 1\<rparr>) of
           Returned s' \<Rightarrow> Exited 0 s'
         | Pending s' \<Rightarrow> StillRunning s'
         | Crashed s' \<Rightarrow> Died s'))"
    using assms c by (simp add: main_def Let_def split del: if_split)
  have e1: "emit DoBenchmark s4 =
      (emits ([Srand, LoadConfig ''settings.json''] @ es @ [DoBenchmark]) s)\<lparr>g_config := cfg\<rparr>"
    and e2: "emit (LogInfo ''usage: [options] id\<newline>'' []) s4 =
      (emits ([Srand, LoadConfig ''settings.json''] @ es @
              [LogInfo ''usage: [options] id\<newline>'' []]) s)\<lparr>g_config := cfg\<rparr>"
    by (simp_all add: s4 emits_def emit_def)
  show ?thesis
    using that [OF ok es(2-5)] m e1 e2 s4 by simp
qed

text \<open>
  C9, as stated, fails: with no positional argument and a \<^verbatim>\<open>settings.json\<close> that cannot be
  loaded, the process exits with status 1 and never prints the usage line. The
  configuration is loaded before the arguments are looked at.
\<close>

theorem usage_exit_counterexample:
  "main sample_env sample_bad_config_run [''client''] sample_startup =
     Exited 1 (emits [Srand, LoadConfig ''settings.json'',
                      LogError ''Error loading settings: no file'' []] sample_startup)"
  by (simp add: main_bad_config sample_bad_config_run_def)

text \<open>
  C9, amended. A configuration that fails to load ends the process with status 1 after
  the error is logged, whatever the arguments; so does, on the CUDA build, a device check
  that finds no device or cannot read the device's info; in both cases before the server
  is contacted, the pump started or an engine touched. Once the configuration has loaded
  and the device check (on the CUDA build) has passed: with no positional argument the
  process prints the usage line last and exits with status 0, without contacting the
  server, running the benchmark or touching an engine; with \<^verbatim>\<open>-b\<close> as first argument it
  runs the benchmark last and exits with status 0, without contacting the server.
\<close>

theorem startup_exits:
  "(in_loadConfig I = Inl err \<longrightarrow>
      main E I argv s =
        Exited 1 (emits [Srand, LoadConfig ''settings.json'',
                         LogError (''Error loading settings: '' @ err) []] s)) \<and>
   (in_loadConfig I = Inr cfg \<and> def_CUDA E \<and>
      (in_deviceCount I = 0 \<or> (\<exists>e. in_deviceInfo I = Inl e)) \<longrightarrow>
      (\<exists>s'. main E I argv s = Exited 1 s' \<and>
            filter is_server_event (new_events s s') = [] \<and>
            filter is_engine_event (new_events s s') = [] \<and>
            ThreadStart SendPointsThread \<notin> set (new_events s s'))) \<and>
   (in_loadConfig I = Inr cfg \<and>
      (def_CUDA E \<longrightarrow> in_deviceCount I \<noteq> 0 \<and> (\<exists>d. in_deviceInfo I = Inr d)) \<and>
      length argv < 2 \<longrightarrow>
      (\<exists>s'. main E I argv s = Exited 0 s' \<and>
            last (new_events s s') = LogInfo ''usage: [options] id\<newline>'' [] \<and>
            filter is_server_event (new_events s s') = [] \<and>
            filter is_engine_event (new_events s s') = [] \<and>
            DoBenchmark \<notin> set (new_events s s') \<and>
            ThreadStart SendPointsThread \<notin> set (new_events s s'))) \<and>
   (in_loadConfig I = Inr cfg \<and>
      (def_CUDA E \<longrightarrow> in_deviceCount I \<noteq> 0 \<and> (\<exists>d. in_deviceInfo I = Inr d)) \<and>
      2 \<le> length argv \<and> argv ! 1 = ''-b'' \<longrightarrow>
      (\<exists>s'. main E I argv s = Exited 0 s' \<and>
            last (new_events s s') = DoBenchmark \<and>
            filter is_server_event (new_events s s') = [] \<and>
            filter is_engine_event (new_events s s') = [] \<and>
            ThreadStart SendPointsThread \<notin> set (new_events s s')))"
proof (intro conjI impI)
  assume "in_loadConfig I = Inl err"
  then show "main E I argv s =
        Exited 1 (emits [Srand, LoadConfig ''settings.json'',
                         LogError (''Error loading settings: '' @ err) []] s)"
    by (rule main_bad_config)
next
  assume a: "in_loadConfig I = Inr cfg \<and> def_CUDA E \<and>
      (in_deviceCount I = 0 \<or> (\<exists>e. in_deviceInfo I = Inl e))"
  then have cfg: "in_loadConfig I = Inr cfg" by blast
  from a have bad: "\<not> (def_CUDA E \<longrightarrow> in_deviceCount I \<noteq> 0 \<and> (\<exists>d. in_deviceInfo I = Inr d))"
    by auto
  obtain ok es where ok: "ok \<longleftrightarrow> (def_CUDA E \<longrightarrow> in_deviceCount I \<noteq> 0 \<and> (\<exists>d. in_deviceInfo I = Inr d))"
    and es: "filter is_server_event es = []" "filter is_engine_event es = []"
      "DoBenchmark \<notin> set es" "ThreadStart SendPointsThread \<notin> set es"
    and m: "main E I argv s =
     (if \<not> ok then
        Exited 1 ((emits ([Srand, LoadConfig ''settings.json''] @ es) s)\<lparr>g_config := cfg\<rparr>)
      else if length argv \<ge> 2 \<and> argv ! 1 = ''-b'' then
        Exited 0 ((emits ([Srand, LoadConfig ''settings.json''] @ es @ [DoBenchmark]) s)
                    \<lparr>g_config := cfg\<rparr>)
      else if length argv < 2 then
        Exited 0 ((emits ([Srand, LoadConfig ''settings.json''] @ es @
                          [LogInfo ''usage: [options] id\<newline>'' []]) s)\<lparr>g_config := cfg\<rparr>)
      else
        (case enterEventLoop E I
                ((emits ([Srand, LoadConfig ''settings.json''] @ es) s)
                   \<lparr>g_config := cfg, g_id := argv ! 1\<rparr>) of
           Returned s' \<Rightarrow> Exited 0 s'
         | Pending s' \<Rightarrow> StillRunning s'
         | Crashed s' \<Rightarrow> Died s'))"
    using cfg by (rule main_config_ok)
  show "\<exists>s'. main E I argv s = Exited 1 s' \<and>
            filter is_server_event (new_events s s') = [] \<and>
            filter is_engine_event (new_events s s') = [] \<and>
            ThreadStart SendPointsThread \<notin> set (new_events s s')"
    using bad ok es m by (simp add: new_events_def)
next
  assume a: "in_loadConfig I = Inr cfg \<and>
      (def_CUDA E \<longrightarrow> in_deviceCount I \<noteq> 0 \<and> (\<exists>d. in_deviceInfo I = Inr d)) \<and>
      length argv < 2"
  then have cfg: "in_loadConfig I = Inr cfg" by blast
  from a have good: "def_CUDA E \<longrightarrow> in_deviceCount I \<noteq> 0 \<and> (\<exists>d. in_deviceInfo I = Inr d)"
    and args: "length argv < 2" by blast+
  obtain ok es where ok: "ok \<longleftrightarrow> (def_CUDA E \<longrightarrow> in_deviceCount I \<noteq> 0 \<and> (\<exists>d. in_deviceInfo I = Inr d))"
    and es: "filter is_server_event es = []" "filter is_engine_event es = []"
      "DoBenchmark \<notin> set es" "ThreadStart SendPointsThread \<notin> set es"
    and m: "main E I argv s =
     (if \<not> ok then
        Exited 1 ((emits ([Srand, LoadConfig ''settings.json''] @ es) s)\<lparr>g_config := cfg\<rparr>)
      else if length argv \<ge> 2 \<and> argv ! 1 = ''-b'' then
        Exited 0 ((emits ([Srand, LoadConfig ''settings.json''] @ es @ [DoBenchmark]) s)
                    \<lparr>g_config := cfg\<rparr>)
      else if length argv < 2 then
        Exited 0 ((emits ([Srand, LoadConfig ''settings.json''] @ es @
                          [LogInfo ''usage: [options] id\<newline>'' []]) s)\<lparr>g_config := cfg\<rparr>)
      else
        (case enterEventLoop E I
                ((emits ([Srand, LoadConfig ''settings.json''] @ es) s)
                   \<lparr>g_config := cfg, g_id := argv ! 1\<rparr>) of
           Returned s' \<Rightarrow> Exited 0 s'
         | Pending s' \<Rightarrow> StillRunning s'
         | Crashed s' \<Rightarrow> Died s'))"
    using cfg by (rule main_config_ok)
  show "\<exists>s'. main E I argv s = Exited 0 s' \<and>
            last (new_events s s') = LogInfo ''usage: [options] id\<newline>'' [] \<and>
            filter is_server_event (new_events s s') = [] \<and>
            filter is_engine_event (new_events s s') = [] \<and>
            DoBenchmark \<notin> set (new_events s s') \<and>
            ThreadStart SendPointsThread \<notin> set (new_events s s')"
    using good args ok es m by (simp add: new_events_def)
next
  assume a: "in_loadConfig I = Inr cfg \<and>
      (def_CUDA E \<longrightarrow> in_deviceCount I \<noteq> 0 \<and> (\<exists>d. in_deviceInfo I = Inr d)) \<and>
      2 \<le> length argv \<and> argv ! 1 = ''-b''"
  then have cfg: "in_loadConfig I = Inr cfg" by blast
  from a have good: "def_CUDA E \<longrightarrow> in_deviceCount I \<noteq> 0 \<and> (\<exists>d. in_deviceInfo I = Inr d)"
    and args: "2 \<le> length argv" "argv ! 1 = ''-b''" by blast+
  obtain ok es where ok: "ok \<longleftrightarrow> (def_CUDA E \<longrightarrow> in_deviceCount I \<noteq> 0 \<and> (\<exists>d. in_deviceInfo I = Inr d))"
    and es: "filter is_server_event es = []" "filter is_engine_event es = []"
      "DoBenchmark \<notin> set es" "ThreadStart SendPointsThread \<notin> set es"
    and m: "main E I argv s =
     (if \<not> ok then
        Exited 1 ((emits ([Srand, LoadConfig ''settings.json''] @ es) s)\<lparr>g_config := cfg\<rparr>)
      else if length argv \<ge> 2 \<and> argv ! 1 = ''-b'' then
        Exited 0 ((emits ([Srand, LoadConfig ''settings.json''] @ es @ [DoBenchmark]) s)
                    \<lparr>g_config := cfg\<rparr>)
      else if length argv < 2 then
        Exited 0 ((emits ([Srand, LoadConfig ''settings.json''] @ es @
                          [LogInfo ''usage: [options] id\<newline>'' []]) s)\<lparr>g_config := cfg\<rparr>)
      else
        (case enterEventLoop E I
                ((emits ([Srand, LoadConfig ''settings.json''] @ es) s)
                   \<lparr>g_config := cfg, g_id := argv ! 1\<rparr>) of
           Returned s' \<Rightarrow> Exited 0 s'
         | Pending s' \<Rightarrow> StillRunning s'
         | Crashed s' \<Rightarrow> Died s'))"
    using cfg by (rule main_config_ok)
  show "\<exists>s'. main E I argv s = Exited 0 s' \<and>
            last (new_events s s') = DoBenchmark \<and>
            filter is_server_event (new_events s s') = [] \<and>
            filter is_engine_event (new_events s s') = [] \<and>
            ThreadStart SendPointsThread \<notin> set (new_events s s')"
    using good args ok es m by (simp add: new_events_def)
qed

theorem startup_exits_witness:
  "main sample_env sample_bad_config_run [''client'', ''p1''] sample_startup =
     Exited 1 (emits [Srand, LoadConfig ''settings.json'',
                      LogError ''Error loading settings: no file'' []] sample_startup) \<and>
   (\<exists>s'. main sample_cuda_env ((sample_run [])\<lparr>in_deviceCount := 0\<rparr>) [''client'', ''p1'']
           sample_startup = Exited 1 s' \<and>
         filter is_server_event (new_events sample_startup s') = []) \<and>
   (\<exists>s'. main sample_cuda_env (sample_run []) [''client''] sample_startup = Exited 0 s' \<and>
         last (new_events sample_startup s') = LogInfo ''usage: [options] id\<newline>'' [] \<and>
         filter is_server_event (new_events sample_startup s') = []) \<and>
   (\<exists>s'. main sample_env (sample_run []) [''client'', ''-b''] sample_startup = Exited 0 s' \<and>
         last (new_events sample_startup s') = DoBenchmark \<and>
         filter is_server_event (new_events sample_startup s') = [])"
proof -
  have bad: "in_loadConfig sample_bad_config_run = Inl ''no file''"
    by (simp add: sample_bad_config_run_def)
  have cfg: "in_loadConfig (sample_run []) = Inr sample_config"
    "in_loadConfig ((sample_run [])\<lparr>in_deviceCount := 0\<rparr>) = Inr sample_config"
    by (simp_all add: sample_run_def)
  have nodev: "def_CUDA sample_cuda_env"
    "in_deviceCount ((sample_run [])\<lparr>in_deviceCount := 0\<rparr>) = 0"
    by (simp_all add: sample_cuda_env_def)
  have dev: "in_deviceCount (sample_run []) \<noteq> 0" "in_deviceInfo (sample_run []) = Inr sample_device"
    and cpu: "\<not> def_CUDA sample_env"
    by (simp_all add: sample_run_def sample_env_def)
  have first: "main sample_env sample_bad_config_run [''client'', ''p1''] sample_startup =
     Exited 1 (emits [Srand, LoadConfig ''settings.json'',
                      LogError (''Error loading settings: '' @ ''no file'') []] sample_startup)"
    using startup_exits [of sample_bad_config_run "''no file''" sample_env "[''client'', ''p1'']"
        sample_startup] bad by blast
  have second: "\<exists>s'. main sample_cuda_env ((sample_run [])\<lparr>in_deviceCount := 0\<rparr>)
           [''client'', ''p1''] sample_startup = Exited 1 s' \<and>
         filter is_server_event (new_events sample_startup s') = []"
    using startup_exits [of "(sample_run [])\<lparr>in_deviceCount := 0\<rparr>" _ sample_cuda_env
        "[''client'', ''p1'']" sample_startup sample_config] cfg nodev by blast
  have third: "\<exists>s'. main sample_cuda_env (sample_run []) [''client''] sample_startup = Exited 0 s' \<and>
         last (new_events sample_startup s') = LogInfo ''usage: [options] id\<newline>'' [] \<and>
         filter is_server_event (new_events sample_startup s') = []"
    using startup_exits [of "sample_run []" _ sample_cuda_env "[''client'']" sample_startup
        sample_config] cfg dev by force
  have fourth: "\<exists>s'. main sample_env (sample_run []) [''client'', ''-b''] sample_startup = Exited 0 s' \<and>
         last (new_events sample_startup s') = DoBenchmark \<and>
         filter is_server_event (new_events sample_startup s') = []"
    using startup_exits [of "sample_run []" _ sample_env "[''client'', ''-b'']" sample_startup
        sample_config] cfg cpu by force
  from first second third fourth show ?thesis by simp
qed

end
